theory Spec2Isabelle
  imports Main
begin

section \<open>The mDNS plugin of ioBroker: configuration resolution and service lifecycle\<close>

text \<open>
  The repository holds one class, \<open>MdnsPlugin\<close>, in two variants: \<open>src/index.ts\<close> binds
  to the library bonjour-service, the second file binds to @homebridge/ciao. Lines 60 to 92
  of \<open>init\<close>, \<open>getAdapterName\<close> and \<open>getPortFromConfig\<close> are the same text in both
  files; the publish block of \<open>init\<close> and the body of \<open>destroy\<close> differ.

  Strings are \<open>string\<close>; the code only compares characters with the full stop and
  concatenates, so the encoding of other characters does not matter. A field of the
  configuration that may be missing (\<open>port?: number\<close>) is an \<open>option\<close>, \<open>None\<close> for
  \<open>undefined\<close>. Numbers are the integers: a port is passed through uninterpreted and the
  only test the code makes on it is truthiness, false exactly at zero among the integers
  (\<open>NaN\<close> and fractions are left out of the model).
\<close>

subsection \<open>Adapter name\<close>

text \<open>
  \<open>ns.match(/system\.adapter\.([^.]+)\./)\<close>: the regular expression has no anchor, so the
  engine tries every start position from the left. At one position the literal
  \<open>system.adapter.\<close> must come first; the greedy group \<open>[^.]+\<close> then takes the longest
  run of characters other than the full stop, which must not be empty and must be followed
  by a full stop (a shorter run would be followed by a character of the run, never by a
  full stop, so backtracking cannot succeed where the longest run fails).
\<close>

definition startsWith :: "string \<Rightarrow> string \<Rightarrow> bool" where
  "startsWith lit s = (take (length lit) s = lit)"

definition match_here :: "string \<Rightarrow> string option" where
  "match_here s =
     (if startsWith ''system.adapter.'' s then
        (let rest = drop (length ''system.adapter.'') s;
             tok = takeWhile (\<lambda>c. c \<noteq> CHR ''.'') rest;
             after = dropWhile (\<lambda>c. c \<noteq> CHR ''.'') rest
         in if tok \<noteq> [] \<and> after \<noteq> [] then Some tok else None)
      else None)"

fun regex_match :: "string \<Rightarrow> string option" where
  "regex_match [] = match_here []"
| "regex_match (c # cs) =
     (case match_here (c # cs) of Some tok \<Rightarrow> Some tok | None \<Rightarrow> regex_match cs)"

text \<open>
  \<open>getAdapterName\<close>: \<open>this.pluginNamespace || ''\<close> turns a missing namespace into the
  empty string; \<open>match ? match[1] : 'unknown'\<close>.
\<close>

definition getAdapterName :: "string option \<Rightarrow> string" where
  "getAdapterName pluginNamespace =
     (let ns = (case pluginNamespace of None \<Rightarrow> [] | Some s \<Rightarrow> s)
      in case regex_match ns of Some tok \<Rightarrow> tok | None \<Rightarrow> ''unknown'')"

text \<open>The pattern, stated on the string rather than as a search.\<close>

definition matches_pattern :: "string \<Rightarrow> bool" where
  "matches_pattern ns =
     (\<exists>pre tok post. ns = pre @ ''system.adapter.'' @ tok @ ''.'' @ post
        \<and> tok \<noteq> [] \<and> CHR ''.'' \<notin> set tok)"

subsection \<open>Configuration and host context\<close>

text \<open>
  \<open>interface MdnsPluginConfig\<close>: every field is optional. The field \<open>txt\<close> (here \<open>cfg_txt\<close>) is a
  \<open>Record<string, string>\<close>, a map from keys to values.
\<close>

record MdnsPluginConfig =
  enabled :: "bool option"
  serviceType :: "string option"
  port :: "int option"
  portKey :: "string option"
  defaultPort :: "int option"
  serviceName :: "string option"
  cfg_txt :: "(string \<rightharpoonup> string) option"

text \<open>
  The values a key of the adapter's native configuration may hold, as far as \<open>typeof\<close>
  tells them apart. A key that is missing reads \<open>undefined\<close>, here \<open>None\<close>.
\<close>

datatype jsvalue = JNull | JBool bool | JNumber int | JString string | JObject

fun typeof :: "jsvalue option \<Rightarrow> string" where
  "typeof None = ''undefined''"
| "typeof (Some JNull) = ''object''"
| "typeof (Some (JBool b)) = ''boolean''"
| "typeof (Some (JNumber n)) = ''number''"
| "typeof (Some (JString s)) = ''string''"
| "typeof (Some JObject) = ''object''"

record io_package =
  native :: "(string \<rightharpoonup> jsvalue) option"

text \<open>
  What the plugin reads from its surroundings: \<open>this.pluginNamespace\<close> and
  \<open>this.parentIoPackage\<close> of the base class, and \<open>os.hostname()\<close>.
\<close>

record host =
  pluginNamespace :: "string option"
  parentIoPackage :: "io_package option"
  hostname :: string

text \<open>Truthiness of a boolean, a number and a string that may be \<open>undefined\<close>.\<close>

fun truthy_bool :: "bool option \<Rightarrow> bool" where
  "truthy_bool None = False"
| "truthy_bool (Some b) = b"

fun truthy_num :: "int option \<Rightarrow> bool" where
  "truthy_num None = False"
| "truthy_num (Some n) = (n \<noteq> 0)"

fun truthy_str :: "string option \<Rightarrow> bool" where
  "truthy_str None = False"
| "truthy_str (Some s) = (s \<noteq> [])"

text \<open>
  \<open>getPortFromConfig\<close>: \<open>native\<close> is \<open>undefined\<close> when the package or its \<open>native\<close>
  field is missing; the value under the key is returned only when \<open>typeof\<close> says
  \<open>number\<close>. Nothing in the body throws on these values, so the \<open>catch\<close> is never
  entered.
\<close>

definition getPortFromConfig :: "host \<Rightarrow> string \<Rightarrow> int option" where
  "getPortFromConfig h key =
     (case parentIoPackage h of
        None \<Rightarrow> None
      | Some pkg \<Rightarrow>
          (case native pkg of
             None \<Rightarrow> None
           | Some nv \<Rightarrow>
               if typeof (nv key) = ''number''
               then (case nv key of Some (JNumber n) \<Rightarrow> Some n | _ \<Rightarrow> None)
               else None))"

subsection \<open>The resolved advertisement (lines 66 to 92 of \<open>init\<close>, the same in both files)\<close>

text \<open>
  A number inside a template literal: decimal digits, with a sign when negative. This is
  what JavaScript prints for a safe integer (absolute value below \<open>2\<^sup>5\<^sup>3\<close>), which
  covers every port number; a larger integer is printed by JavaScript from the nearest
  double, not digit by digit.
\<close>

fun show_nat :: "nat \<Rightarrow> string" where
  "show_nat n =
     (if n < 10 then [''0123456789'' ! n]
      else show_nat (n div 10) @ [''0123456789'' ! (n mod 10)])"

declare show_nat.simps [simp del]

definition show_int :: "int \<Rightarrow> string" where
  "show_int i = (if i < 0 then ''-'' @ show_nat (nat (- i)) else show_nat (nat i))"

text \<open>\<open>pluginConfig.serviceType || `iobroker-${adapterName}`\<close>\<close>

definition init_serviceType :: "host \<Rightarrow> MdnsPluginConfig \<Rightarrow> string" where
  "init_serviceType h cfg =
     (if truthy_str (serviceType cfg) then the (serviceType cfg)
      else ''iobroker-'' @ getAdapterName (pluginNamespace h))"

text \<open>
  The variable \<open>port\<close> after lines 71 to 77: the configured port; when that is falsy and
  \<open>portKey\<close> is truthy, the port of the native configuration; when the result is falsy
  and \<open>defaultPort\<close> is truthy, the default port.
\<close>

definition init_port :: "host \<Rightarrow> MdnsPluginConfig \<Rightarrow> int option" where
  "init_port h cfg =
     (let port0 = port cfg;
          port1 = (if \<not> truthy_num port0 \<and> truthy_str (portKey cfg)
                   then getPortFromConfig h (the (portKey cfg)) else port0);
          port2 = (if \<not> truthy_num port1 \<and> truthy_num (defaultPort cfg)
                   then defaultPort cfg else port1)
      in port2)"

text \<open>\<open>pluginConfig.serviceName || `ioBroker ${adapterName} (${hostname})`\<close>\<close>

definition init_serviceName :: "host \<Rightarrow> MdnsPluginConfig \<Rightarrow> string" where
  "init_serviceName h cfg =
     (if truthy_str (serviceName cfg) then the (serviceName cfg)
      else ''ioBroker '' @ getAdapterName (pluginNamespace h) @ '' ('' @ hostname h @ '')'')"

text \<open>
  \<open>{ adapter: adapterName, hostname: hostname, ...(pluginConfig.txt || {}) }\<close>: a later
  entry of an object literal replaces an earlier one with the same key.
\<close>

definition init_txt :: "host \<Rightarrow> MdnsPluginConfig \<Rightarrow> (string \<rightharpoonup> string)" where
  "init_txt h cfg =
     [''adapter'' \<mapsto> getAdapterName (pluginNamespace h), ''hostname'' \<mapsto> hostname h]
       ++ (case cfg_txt cfg of None \<Rightarrow> Map.empty | Some t \<Rightarrow> t)"

text \<open>The object handed to \<open>publish\<close> and to \<open>createService\<close>.\<close>

record advert =
  adv_name :: string
  adv_type :: string
  adv_port :: int
  adv_txt :: "string \<rightharpoonup> string"

definition init_advert :: "host \<Rightarrow> MdnsPluginConfig \<Rightarrow> int \<Rightarrow> advert" where
  "init_advert h cfg p =
     \<lparr>adv_name = init_serviceName h cfg, adv_type = init_serviceType h cfg,
      adv_port = p, adv_txt = init_txt h cfg\<rparr>"

subsection \<open>Effects: the logger, thrown values, the library\<close>

datatype level = LogInfo | LogWarn | LogError | LogDebug

type_synonym log_entry = "level \<times> string"

text \<open>
  A value thrown by a call of the library, as far as the template \<open>${err.message}\<close> of
  the \<open>catch\<close> block tells values apart:
  \<^item> \<open>undefined\<close> and \<open>null\<close>: reading a property of either raises a \<open>TypeError\<close>;
  \<^item> a value whose \<open>message\<close> can be read and converted to a text (an \<open>Error\<close>);
  \<^item> a value with no \<open>message\<close> (a string, a number, a plain object), for which the
    template prints \<open>undefined\<close>;
  \<^item> a value whose \<open>message\<close> cannot be turned into a text: reading it throws (a
    getter that throws), or converting it throws (a \<open>Symbol\<close>, an object with no usable
    \<open>toString\<close>).
  The template is evaluated inside the \<open>catch\<close> block of \<open>init\<close>, so what it raises
  leaves \<open>init\<close>.
\<close>

datatype thrown =
  ThrownUndefined | ThrownNull | ThrownError string | ThrownOther | ThrownUnreadable

datatype raised = TypeError thrown | MessageThrew thrown

fun read_message :: "thrown \<Rightarrow> raised + string" where
  "read_message ThrownUndefined = Inl (TypeError ThrownUndefined)"
| "read_message ThrownNull = Inl (TypeError ThrownNull)"
| "read_message (ThrownError m) = Inr m"
| "read_message ThrownOther = Inr ''undefined''"
| "read_message ThrownUnreadable = Inl (MessageThrew ThrownUnreadable)"

datatype 'a outcome = Returns 'a | Throws thrown

text \<open>
  What one call of \<open>init\<close> or \<open>destroy\<close> did: how it ended (\<open>Inl\<close> when an
  exception left the call, which for an \<open>async\<close> method is a rejected promise), the
  fields of the plugin afterwards, the lines it logged and the calls it made to the
  library, in order. The methods of the logger are taken to return normally.
\<close>

record ('r, 's, 'c) run =
  returned :: "raised + 'r"
  state :: 's
  logs :: "log_entry list"
  calls :: "'c list"

text \<open>The double quote of the log texts.\<close>

definition dq :: string where
  "dq = [CHR 0x22]"

definition published_line :: "string \<Rightarrow> int \<Rightarrow> string \<Rightarrow> log_entry" where
  "published_line ty p nm =
     (LogInfo, ''mDNS service published: _'' @ ty @ ''._tcp on port '' @ show_int p
        @ '' as '' @ dq @ nm @ dq)"

definition failed_line :: "string \<Rightarrow> log_entry" where
  "failed_line m = (LogError, ''mDNS plugin failed to publish service: '' @ m)"

definition disabled_line :: log_entry where
  "disabled_line = (LogInfo, ''mDNS plugin disabled by user'')"

definition no_port_line :: log_entry where
  "no_port_line =
     (LogWarn, ''mDNS plugin: no port configured. Set '' @ dq @ ''port'' @ dq @ '', ''
        @ dq @ ''portKey'' @ dq @ '', or '' @ dq @ ''defaultPort'' @ dq @ '' in plugin config.'')"

definition destroyed_line :: log_entry where
  "destroyed_line = (LogDebug, ''mDNS plugin destroyed'')"

subsection \<open>The variant on bonjour-service (\<open>src/index.ts\<close>)\<close>

text \<open>
  The handles of the library are opaque. A \<open>Service\<close> of bonjour-service declares
  \<open>stop\<close> as an optional member, and \<open>destroy\<close> calls it as \<open>stop?.()\<close>: the handle
  records whether the member is there.
\<close>

datatype bonjour_handle = Bonjour

datatype bonjour_service = Service (stop_defined: bool)

record bonjour_plugin =
  bonjour :: "bonjour_handle option"
  service :: "bonjour_service option"

text \<open>How the calls of the library end, in one call of \<open>init\<close> or \<open>destroy\<close>.\<close>

record bonjour_lib =
  on_import :: "unit outcome"
  on_new :: "bonjour_handle outcome"
  on_publish :: "bonjour_service outcome"
  on_stop :: "unit outcome"
  on_unpublishAll :: "unit outcome"
  on_destroy :: "unit outcome"

datatype bonjour_call =
  ImportBonjour | NewBonjour | Publish advert | ServiceStop | UnpublishAll | BonjourDestroy

text \<open>
  The body of the \<open>try\<close> block of \<open>init\<close> before the log line: the value thrown, if any,
  the fields afterwards and the calls made. An assignment whose right-hand side throws does
  not happen.
\<close>

definition try_publish_bonjour ::
  "bonjour_lib \<Rightarrow> advert \<Rightarrow> bonjour_plugin \<Rightarrow> thrown option \<times> bonjour_plugin \<times> bonjour_call list"
where
  "try_publish_bonjour lib adv st =
     (case on_import lib of
        Throws e \<Rightarrow> (Some e, st, [ImportBonjour])
      | Returns _ \<Rightarrow>
          (case on_new lib of
             Throws e \<Rightarrow> (Some e, st, [ImportBonjour, NewBonjour])
           | Returns b \<Rightarrow>
               (let st1 = st\<lparr>bonjour := Some b\<rparr> in
                case on_publish lib of
                  Throws e \<Rightarrow> (Some e, st1, [ImportBonjour, NewBonjour, Publish adv])
                | Returns s \<Rightarrow>
                    (None, st1\<lparr>service := Some s\<rparr>, [ImportBonjour, NewBonjour, Publish adv]))))"

definition init_bonjour ::
  "host \<Rightarrow> MdnsPluginConfig \<Rightarrow> bonjour_lib \<Rightarrow> bonjour_plugin \<Rightarrow> (unit, bonjour_plugin, bonjour_call) run"
where
  "init_bonjour h cfg lib st =
     (if \<not> truthy_bool (enabled cfg) then
        \<lparr>returned = Inr (), state = st, logs = [disabled_line], calls = []\<rparr>
      else if \<not> truthy_num (init_port h cfg) then
        \<lparr>returned = Inr (), state = st, logs = [no_port_line], calls = []\<rparr>
      else
        (let p = the (init_port h cfg) in
         case try_publish_bonjour lib (init_advert h cfg p) st of
           (None, st', cs) \<Rightarrow>
             \<lparr>returned = Inr (), state = st',
              logs = [published_line (init_serviceType h cfg) p (init_serviceName h cfg)],
              calls = cs\<rparr>
         | (Some err, st', cs) \<Rightarrow>
             (case read_message err of
                Inl r \<Rightarrow> \<lparr>returned = Inl r, state = st', logs = [], calls = cs\<rparr>
              | Inr m \<Rightarrow> \<lparr>returned = Inr (), state = st', logs = [failed_line m], calls = cs\<rparr>)))"

text \<open>
  \<open>destroy\<close>. The body of the first \<open>try\<close>: \<open>stop?.()\<close> calls the member only when it
  is there. The body of the second: \<open>destroy()\<close> is not reached when \<open>unpublishAll()\<close>
  throws. Each \<open>catch (_)\<close> is empty, so the value thrown is dropped, and the field is set
  to \<open>null\<close> after the \<open>try\<close> statement either way.
\<close>

definition try_stop_bonjour :: "bonjour_lib \<Rightarrow> bonjour_service \<Rightarrow> thrown option \<times> bonjour_call list" where
  "try_stop_bonjour lib s =
     (if stop_defined s then
        (case on_stop lib of
           Throws e \<Rightarrow> (Some e, [ServiceStop])
         | Returns _ \<Rightarrow> (None, [ServiceStop]))
      else (None, []))"

definition try_shutdown_bonjour :: "bonjour_lib \<Rightarrow> thrown option \<times> bonjour_call list" where
  "try_shutdown_bonjour lib =
     (case on_unpublishAll lib of
        Throws e \<Rightarrow> (Some e, [UnpublishAll])
      | Returns _ \<Rightarrow>
          (case on_destroy lib of
             Throws e \<Rightarrow> (Some e, [UnpublishAll, BonjourDestroy])
           | Returns _ \<Rightarrow> (None, [UnpublishAll, BonjourDestroy])))"

definition destroy_bonjour ::
  "bonjour_lib \<Rightarrow> bonjour_plugin \<Rightarrow> (bool, bonjour_plugin, bonjour_call) run"
where
  "destroy_bonjour lib st =
     (let (st1, cs1) =
            (case service st of
               None \<Rightarrow> (st, [])
             | Some s \<Rightarrow> (case try_stop_bonjour lib s of (_, cs) \<Rightarrow> (st\<lparr>service := None\<rparr>, cs)));
          (st2, cs2) =
            (case bonjour st1 of
               None \<Rightarrow> (st1, [])
             | Some b \<Rightarrow> (case try_shutdown_bonjour lib of (_, cs) \<Rightarrow> (st1\<lparr>bonjour := None\<rparr>, cs)))
      in \<lparr>returned = Inr True, state = st2, logs = [destroyed_line], calls = cs1 @ cs2\<rparr>)"

subsection \<open>The variant on @homebridge/ciao (the second file)\<close>

datatype responder_handle = Responder

datatype ciao_service = CiaoService

record ciao_plugin =
  responder :: "responder_handle option"
  ciao_service :: "ciao_service option"

record ciao_lib =
  on_import_ciao :: "unit outcome"
  on_getResponder :: "responder_handle outcome"
  on_createService :: "ciao_service outcome"
  on_advertise :: "unit outcome"
  on_end :: "unit outcome"
  on_shutdown :: "unit outcome"

datatype ciao_call =
  ImportCiao | GetResponder | CreateService advert | Advertise | ServiceEnd | ResponderShutdown

text \<open>
  The \<open>try\<close> block has one step more than in the first file: the service is created and
  stored in the field, then \<open>await this.service.advertise()\<close> starts the advertisement.
\<close>

definition try_publish_ciao ::
  "ciao_lib \<Rightarrow> advert \<Rightarrow> ciao_plugin \<Rightarrow> thrown option \<times> ciao_plugin \<times> ciao_call list"
where
  "try_publish_ciao lib adv st =
     (case on_import_ciao lib of
        Throws e \<Rightarrow> (Some e, st, [ImportCiao])
      | Returns _ \<Rightarrow>
          (case on_getResponder lib of
             Throws e \<Rightarrow> (Some e, st, [ImportCiao, GetResponder])
           | Returns r \<Rightarrow>
               (let st1 = st\<lparr>responder := Some r\<rparr> in
                case on_createService lib of
                  Throws e \<Rightarrow> (Some e, st1, [ImportCiao, GetResponder, CreateService adv])
                | Returns s \<Rightarrow>
                    (let st2 = st1\<lparr>ciao_service := Some s\<rparr> in
                     case on_advertise lib of
                       Throws e \<Rightarrow>
                         (Some e, st2, [ImportCiao, GetResponder, CreateService adv, Advertise])
                     | Returns _ \<Rightarrow>
                         (None, st2, [ImportCiao, GetResponder, CreateService adv, Advertise])))))"

definition init_ciao ::
  "host \<Rightarrow> MdnsPluginConfig \<Rightarrow> ciao_lib \<Rightarrow> ciao_plugin \<Rightarrow> (unit, ciao_plugin, ciao_call) run"
where
  "init_ciao h cfg lib st =
     (if \<not> truthy_bool (enabled cfg) then
        \<lparr>returned = Inr (), state = st, logs = [disabled_line], calls = []\<rparr>
      else if \<not> truthy_num (init_port h cfg) then
        \<lparr>returned = Inr (), state = st, logs = [no_port_line], calls = []\<rparr>
      else
        (let p = the (init_port h cfg) in
         case try_publish_ciao lib (init_advert h cfg p) st of
           (None, st', cs) \<Rightarrow>
             \<lparr>returned = Inr (), state = st',
              logs = [published_line (init_serviceType h cfg) p (init_serviceName h cfg)],
              calls = cs\<rparr>
         | (Some err, st', cs) \<Rightarrow>
             (case read_message err of
                Inl r \<Rightarrow> \<lparr>returned = Inl r, state = st', logs = [], calls = cs\<rparr>
              | Inr m \<Rightarrow> \<lparr>returned = Inr (), state = st', logs = [failed_line m], calls = cs\<rparr>)))"

text \<open>\<open>destroy\<close>: \<open>await this.service.end()\<close> and \<open>await this.responder.shutdown()\<close>, each
  in a \<open>try\<close> with an empty \<open>catch\<close>.\<close>

definition try_end_ciao :: "ciao_lib \<Rightarrow> thrown option \<times> ciao_call list" where
  "try_end_ciao lib =
     (case on_end lib of
        Throws e \<Rightarrow> (Some e, [ServiceEnd])
      | Returns _ \<Rightarrow> (None, [ServiceEnd]))"

definition try_shutdown_ciao :: "ciao_lib \<Rightarrow> thrown option \<times> ciao_call list" where
  "try_shutdown_ciao lib =
     (case on_shutdown lib of
        Throws e \<Rightarrow> (Some e, [ResponderShutdown])
      | Returns _ \<Rightarrow> (None, [ResponderShutdown]))"

definition destroy_ciao ::
  "ciao_lib \<Rightarrow> ciao_plugin \<Rightarrow> (bool, ciao_plugin, ciao_call) run"
where
  "destroy_ciao lib st =
     (let (st1, cs1) =
            (case ciao_service st of
               None \<Rightarrow> (st, [])
             | Some s \<Rightarrow> (case try_end_ciao lib of (_, cs) \<Rightarrow> (st\<lparr>ciao_service := None\<rparr>, cs)));
          (st2, cs2) =
            (case responder st1 of
               None \<Rightarrow> (st1, [])
             | Some r \<Rightarrow> (case try_shutdown_ciao lib of (_, cs) \<Rightarrow> (st1\<lparr>responder := None\<rparr>, cs)))
      in \<lparr>returned = Inr True, state = st2, logs = [destroyed_line], calls = cs1 @ cs2\<rparr>)"

text \<open>A plugin object as the class creates it: both fields \<open>null\<close>.\<close>

definition new_bonjour_plugin :: bonjour_plugin where
  "new_bonjour_plugin = \<lparr>bonjour = None, service = None\<rparr>"

definition new_ciao_plugin :: ciao_plugin where
  "new_ciao_plugin = \<lparr>responder = None, ciao_service = None\<rparr>"

subsection \<open>The advertisements handed to the library\<close>

fun adverts_bonjour :: "bonjour_call list \<Rightarrow> advert list" where
  "adverts_bonjour [] = []"
| "adverts_bonjour (Publish a # cs) = a # adverts_bonjour cs"
| "adverts_bonjour (c # cs) = adverts_bonjour cs"

fun adverts_ciao :: "ciao_call list \<Rightarrow> advert list" where
  "adverts_ciao [] = []"
| "adverts_ciao (CreateService a # cs) = a # adverts_ciao cs"
| "adverts_ciao (c # cs) = adverts_ciao cs"

subsection \<open>The responder as one abstract capability\<close>

text \<open>
  The specification asks to read both libraries as one capability with the operations
  advertise, stop and shutdown, each of which may fail. The definitions of this subsection
  follow the specification, not the source: they say which behaviour of that capability a
  behaviour of each library plays, and how the calls and the fields of each variant are
  seen through it.

  A step of the capability that a library performs by two calls in sequence ends as the
  first call that throws, and returns when both return. Obtaining the responder is loading
  the module followed by \<open>new Bonjour()\<close>, respectively \<open>getResponder()\<close>. Advertise is
  \<open>publish\<close> in the first file; in the second it is \<open>createService\<close> followed by
  \<open>advertise()\<close>, and either may be the call that fails. Stop is \<open>stop\<close>, respectively
  \<open>end\<close>; shutdown is \<open>unpublishAll\<close> followed by \<open>destroy\<close>, respectively
  \<open>shutdown\<close>.
\<close>

record capability =
  cap_acquire :: "unit outcome"
  cap_advertise :: "unit outcome"
  cap_stop :: "unit outcome"
  cap_shutdown :: "unit outcome"

datatype capability_call = CapAdvertise advert | CapStop | CapShutdown

fun in_sequence :: "'a outcome \<Rightarrow> 'b outcome \<Rightarrow> unit outcome" where
  "in_sequence (Throws e) second = Throws e"
| "in_sequence (Returns x) (Throws e) = Throws e"
| "in_sequence (Returns x) (Returns y) = Returns ()"

definition cap_of_bonjour :: "bonjour_lib \<Rightarrow> capability" where
  "cap_of_bonjour lib =
     \<lparr>cap_acquire = in_sequence (on_import lib) (on_new lib),
      cap_advertise = in_sequence (on_publish lib) (Returns ()),
      cap_stop = on_stop lib,
      cap_shutdown = in_sequence (on_unpublishAll lib) (on_destroy lib)\<rparr>"

definition cap_of_ciao :: "ciao_lib \<Rightarrow> capability" where
  "cap_of_ciao lib =
     \<lparr>cap_acquire = in_sequence (on_import_ciao lib) (on_getResponder lib),
      cap_advertise = in_sequence (on_createService lib) (on_advertise lib),
      cap_stop = on_end lib,
      cap_shutdown = on_shutdown lib\<rparr>"

fun abs_bonjour :: "bonjour_call list \<Rightarrow> capability_call list" where
  "abs_bonjour [] = []"
| "abs_bonjour (Publish a # cs) = CapAdvertise a # abs_bonjour cs"
| "abs_bonjour (ServiceStop # cs) = CapStop # abs_bonjour cs"
| "abs_bonjour (UnpublishAll # cs) = CapShutdown # abs_bonjour cs"
| "abs_bonjour (c # cs) = abs_bonjour cs"

fun abs_ciao :: "ciao_call list \<Rightarrow> capability_call list" where
  "abs_ciao [] = []"
| "abs_ciao (CreateService a # cs) = CapAdvertise a # abs_ciao cs"
| "abs_ciao (ServiceEnd # cs) = CapStop # abs_ciao cs"
| "abs_ciao (ResponderShutdown # cs) = CapShutdown # abs_ciao cs"
| "abs_ciao (c # cs) = abs_ciao cs"

text \<open>Which handles a plugin holds: the responder, the service.\<close>

definition handles_bonjour :: "bonjour_plugin \<Rightarrow> bool \<times> bool" where
  "handles_bonjour st = (bonjour st \<noteq> None, service st \<noteq> None)"

definition handles_ciao :: "ciao_plugin \<Rightarrow> bool \<times> bool" where
  "handles_ciao st = (responder st \<noteq> None, ciao_service st \<noteq> None)"

text \<open>
  What a host sees of one life of a fresh plugin, \<open>init\<close> followed by \<open>destroy\<close>, against
  one behaviour of the library.
\<close>

record observed =
  obs_init :: "raised + unit"
  obs_destroy :: "raised + bool"
  obs_logs :: "log_entry list"
  obs_calls :: "capability_call list"
  obs_handles_after_init :: "bool \<times> bool"
  obs_handles_after_destroy :: "bool \<times> bool"

definition life_bonjour :: "host \<Rightarrow> MdnsPluginConfig \<Rightarrow> bonjour_lib \<Rightarrow> observed" where
  "life_bonjour h cfg lib =
     (let r1 = init_bonjour h cfg lib new_bonjour_plugin;
          r2 = destroy_bonjour lib (state r1)
      in \<lparr>obs_init = returned r1, obs_destroy = returned r2,
          obs_logs = logs r1 @ logs r2,
          obs_calls = abs_bonjour (calls r1) @ abs_bonjour (calls r2),
          obs_handles_after_init = handles_bonjour (state r1),
          obs_handles_after_destroy = handles_bonjour (state r2)\<rparr>)"

definition life_ciao :: "host \<Rightarrow> MdnsPluginConfig \<Rightarrow> ciao_lib \<Rightarrow> observed" where
  "life_ciao h cfg lib =
     (let r1 = init_ciao h cfg lib new_ciao_plugin;
          r2 = destroy_ciao lib (state r1)
      in \<lparr>obs_init = returned r1, obs_destroy = returned r2,
          obs_logs = logs r1 @ logs r2,
          obs_calls = abs_ciao (calls r1) @ abs_ciao (calls r2),
          obs_handles_after_init = handles_ciao (state r1),
          obs_handles_after_destroy = handles_ciao (state r2)\<rparr>)"

subsection \<open>Inputs of the specification's examples\<close>

text \<open>
  The host of the end-to-end example: hostname \<open>host1\<close>, namespace of the adapter
  \<open>ai-assistant\<close>; its native configuration holds a port under the key \<open>x\<close>. A
  configuration with every field missing, from which the examples are built by update.
  A library whose calls all return.
\<close>

definition host_native :: "(string \<rightharpoonup> jsvalue) \<Rightarrow> host" where
  "host_native nv =
     \<lparr>pluginNamespace = Some ''system.adapter.ai-assistant.0.plugins.mdns'',
      parentIoPackage = Some \<lparr>native = Some nv\<rparr>,
      hostname = ''host1''\<rparr>"

definition host1 :: host where
  "host1 = host_native [''x'' \<mapsto> JNumber 9999]"

definition no_config :: MdnsPluginConfig where
  "no_config =
     \<lparr>enabled = None, serviceType = None, port = None, portKey = None,
      defaultPort = None, serviceName = None, cfg_txt = None\<rparr>"

definition bonjour_ok :: bonjour_lib where
  "bonjour_ok =
     \<lparr>on_import = Returns (), on_new = Returns Bonjour, on_publish = Returns (Service True),
      on_stop = Returns (), on_unpublishAll = Returns (), on_destroy = Returns ()\<rparr>"

definition ciao_ok :: ciao_lib where
  "ciao_ok =
     \<lparr>on_import_ciao = Returns (), on_getResponder = Returns Responder,
      on_createService = Returns CiaoService, on_advertise = Returns (),
      on_end = Returns (), on_shutdown = Returns ()\<rparr>"

section \<open>Properties\<close>

subsection \<open>Adapter-name extraction\<close>

lemma match_here_shape:
  assumes "tok \<noteq> []" and "CHR ''.'' \<notin> set tok"
  shows "match_here (''system.adapter.'' @ tok @ ''.'' @ post) = Some tok"
proof -
  have tw: "takeWhile (\<lambda>c. c \<noteq> CHR ''.'') (tok @ CHR ''.'' # post) = tok"
    using assms(2) by (intro takeWhile_tail[THEN trans, OF _ takeWhile_eq_all_conv[THEN iffD2]]) auto
  have dw: "dropWhile (\<lambda>c. c \<noteq> CHR ''.'') (tok @ CHR ''.'' # post) = CHR ''.'' # post"
    using assms(2) by (subst dropWhile_append2) auto
  show ?thesis
    using assms(1) tw dw by (simp add: match_here_def startsWith_def)
qed

lemma split_at_token:
  assumes "take n s = lit" and "tok = takeWhile P (drop n s)"
    and "dropWhile P (drop n s) = d # post"
  shows "s = lit @ tok @ d # post"
proof -
  have "s = take n s @ drop n s"
    by simp
  also have "drop n s = takeWhile P (drop n s) @ dropWhile P (drop n s)"
    by simp
  finally show ?thesis
    using assms by simp
qed

lemma match_here_Some:
  assumes "match_here s = Some tok"
  shows "\<exists>post. s = ''system.adapter.'' @ tok @ ''.'' @ post \<and> tok \<noteq> [] \<and> CHR ''.'' \<notin> set tok"
proof -
  define lit where "lit = ''system.adapter.''"
  define P where "P = (\<lambda>c. c \<noteq> CHR ''.'')"
  define rest where "rest = drop (length lit) s"
  have mh: "match_here s =
      (if startsWith lit s then
         (if takeWhile P rest \<noteq> [] \<and> dropWhile P rest \<noteq> [] then Some (takeWhile P rest) else None)
       else None)"
    unfolding match_here_def lit_def P_def rest_def Let_def ..
  from assms mh have pre: "take (length lit) s = lit"
    and tok: "tok = takeWhile P rest" and ne: "tok \<noteq> []"
    and after: "dropWhile P rest \<noteq> []"
    unfolding startsWith_def by (auto split: if_splits)
  from after obtain d post where dp: "dropWhile P rest = d # post"
    by (cases "dropWhile P rest") auto
  from after have "\<not> P (hd (dropWhile P rest))"
    by (rule hd_dropWhile)
  with dp have "d = CHR ''.''"
    by (simp add: P_def)
  with dp have post: "dropWhile P rest = CHR ''.'' # post"
    by simp
  have "s = lit @ tok @ CHR ''.'' # post"
    using pre tok post unfolding rest_def by (rule split_at_token)
  then have "s = ''system.adapter.'' @ tok @ ''.'' @ post"
    unfolding lit_def by simp
  moreover have "CHR ''.'' \<notin> set tok"
    unfolding tok P_def by (auto dest: set_takeWhileD)
  ultimately show ?thesis
    using ne by blast
qed

lemma regex_match_Some:
  "regex_match ns = Some tok \<Longrightarrow>
     \<exists>pre post. ns = pre @ ''system.adapter.'' @ tok @ ''.'' @ post
       \<and> tok \<noteq> [] \<and> CHR ''.'' \<notin> set tok"
proof (induction ns)
  case Nil
  then show ?case
    by (simp add: match_here_def startsWith_def)
next
  case (Cons c cs)
  show ?case
  proof (cases "match_here (c # cs)")
    case (Some t)
    with Cons.prems have "t = tok" by simp
    with Some obtain post where
      "c # cs = ''system.adapter.'' @ tok @ ''.'' @ post \<and> tok \<noteq> [] \<and> CHR ''.'' \<notin> set tok"
      using match_here_Some by blast
    then have "c # cs = [] @ ''system.adapter.'' @ tok @ ''.'' @ post
        \<and> tok \<noteq> [] \<and> CHR ''.'' \<notin> set tok"
      by simp
    then show ?thesis by blast
  next
    case None
    with Cons.prems have "regex_match cs = Some tok" by simp
    then obtain pre post where
      "cs = pre @ ''system.adapter.'' @ tok @ ''.'' @ post \<and> tok \<noteq> [] \<and> CHR ''.'' \<notin> set tok"
      using Cons.IH by blast
    then have "c # cs = (c # pre) @ ''system.adapter.'' @ tok @ ''.'' @ post
        \<and> tok \<noteq> [] \<and> CHR ''.'' \<notin> set tok"
      by simp
    then show ?thesis by blast
  qed
qed

lemma regex_match_no_pattern:
  "\<not> matches_pattern ns \<Longrightarrow> regex_match ns = None"
  unfolding matches_pattern_def using regex_match_Some
  by (cases "regex_match ns") blast+

text \<open>
  Claim C7. Extracting the adapter name is a total function of the namespace: a namespace
  \<open>system.adapter.<name>.<instance>.plugins.mdns\<close> with a name that is not empty and has
  no full stop yields that name; a namespace in which the pattern
  \<open>system.adapter.<token>.\<close> occurs nowhere yields \<open>unknown\<close>; the two namespaces of the
  specification yield \<open>foo\<close> and \<open>unknown\<close>.
\<close>

theorem getAdapterName_extraction:
  "(name \<noteq> [] \<and> CHR ''.'' \<notin> set name \<longrightarrow>
      getAdapterName (Some (''system.adapter.'' @ name @ ''.'' @ inst @ ''.plugins.mdns'')) = name)
   \<and> (\<not> matches_pattern ns \<longrightarrow> getAdapterName (Some ns) = ''unknown'')
   \<and> getAdapterName (Some ''system.adapter.foo.0.plugins.mdns'') = ''foo''
   \<and> getAdapterName (Some ''garbage'') = ''unknown''
   \<and> getAdapterName None = ''unknown''"
proof (intro conjI impI)
  assume a: "name \<noteq> [] \<and> CHR ''.'' \<notin> set name"
  then have "match_here (''system.adapter.'' @ name @ ''.'' @ (inst @ ''.plugins.mdns'')) = Some name"
    by (intro match_here_shape) auto
  then show "getAdapterName (Some (''system.adapter.'' @ name @ ''.'' @ inst @ ''.plugins.mdns'')) = name"
    by (simp add: getAdapterName_def)
next
  assume "\<not> matches_pattern ns"
  then show "getAdapterName (Some ns) = ''unknown''"
    by (simp add: getAdapterName_def regex_match_no_pattern)
next
  have "match_here (''system.adapter.'' @ ''foo'' @ ''.'' @ ''0.plugins.mdns'') = Some ''foo''"
    by (intro match_here_shape) auto
  then show "getAdapterName (Some ''system.adapter.foo.0.plugins.mdns'') = ''foo''"
    by (simp add: getAdapterName_def)
next
  show "getAdapterName (Some ''garbage'') = ''unknown''"
    by (simp add: getAdapterName_def match_here_def startsWith_def)
next
  show "getAdapterName None = ''unknown''"
    by (simp add: getAdapterName_def match_here_def startsWith_def)
qed

lemma no_pattern_in_prefix: "\<not> matches_pattern ''system.adapter.''"
proof
  assume "matches_pattern ''system.adapter.''"
  then obtain pre tok post where
    eq: "''system.adapter.'' = pre @ ''system.adapter.'' @ tok @ ''.'' @ post"
    unfolding matches_pattern_def by blast
  then have "length ''system.adapter.'' = length (pre @ ''system.adapter.'' @ tok @ ''.'' @ post)"
    by (rule arg_cong)
  then show False by simp
qed

theorem getAdapterName_extraction_witness:
  "(''ai-assistant'' \<noteq> [] \<and> CHR ''.'' \<notin> set ''ai-assistant'')
   \<and> getAdapterName (Some (''system.adapter.'' @ ''ai-assistant'' @ ''.'' @ ''0'' @ ''.plugins.mdns''))
       = ''ai-assistant''
   \<and> \<not> matches_pattern ''system.adapter.''
   \<and> getAdapterName (Some ''system.adapter.'') = ''unknown''"
  using getAdapterName_extraction [of "''ai-assistant''" "''0''" "''system.adapter.''"]
    no_pattern_in_prefix
  by simp

subsection \<open>Facts about \<open>init\<close> used below\<close>

lemma adverts_try_publish_bonjour:
  "a \<in> set (adverts_bonjour (snd (snd (try_publish_bonjour lib adv st)))) \<Longrightarrow> a = adv"
  by (auto simp: try_publish_bonjour_def Let_def split: outcome.splits)

lemma adverts_try_publish_ciao:
  "a \<in> set (adverts_ciao (snd (snd (try_publish_ciao lib adv st)))) \<Longrightarrow> a = adv"
  by (auto simp: try_publish_ciao_def Let_def split: outcome.splits)

lemma calls_init_bonjour:
  "calls (init_bonjour h cfg lib st) =
     (if truthy_bool (enabled cfg) \<and> truthy_num (init_port h cfg)
      then snd (snd (try_publish_bonjour lib (init_advert h cfg (the (init_port h cfg))) st))
      else [])"
  by (simp add: init_bonjour_def Let_def split: prod.splits option.splits sum.splits)

lemma calls_init_ciao:
  "calls (init_ciao h cfg lib st) =
     (if truthy_bool (enabled cfg) \<and> truthy_num (init_port h cfg)
      then snd (snd (try_publish_ciao lib (init_advert h cfg (the (init_port h cfg))) st))
      else [])"
  by (simp add: init_ciao_def Let_def split: prod.splits option.splits sum.splits)

lemma advert_of_init:
  assumes "a \<in> set (adverts_bonjour (calls (init_bonjour h cfg lib st)))
         \<or> a \<in> set (adverts_ciao (calls (init_ciao h cfg lib' st')))"
  shows "truthy_bool (enabled cfg) \<and> truthy_num (init_port h cfg)
         \<and> a = init_advert h cfg (the (init_port h cfg))"
  using assms
  by (auto simp: calls_init_bonjour calls_init_ciao split: if_splits
      dest: adverts_try_publish_bonjour adverts_try_publish_ciao)

lemma advert_port:
  assumes "a \<in> set (adverts_bonjour (calls (init_bonjour h cfg lib st)))
         \<or> a \<in> set (adverts_ciao (calls (init_ciao h cfg lib' st')))"
  shows "init_port h cfg = Some (adv_port a) \<and> adv_port a \<noteq> 0"
proof -
  from assms have "truthy_num (init_port h cfg) \<and> a = init_advert h cfg (the (init_port h cfg))"
    using advert_of_init by blast
  then show ?thesis
    by (cases "init_port h cfg") (simp_all add: init_advert_def)
qed

lemma getPortFromConfig_Some:
  "getPortFromConfig h k = Some n \<longleftrightarrow>
     (\<exists>pkg nv. parentIoPackage h = Some pkg \<and> native pkg = Some nv \<and> nv k = Some (JNumber n))"
  by (auto simp: getPortFromConfig_def split: option.splits jsvalue.splits)

lemma adapter_host_native: "getAdapterName (pluginNamespace (host_native nv)) = ''ai-assistant''"
  by (simp add: host_native_def getAdapterName_def match_here_def startsWith_def)

lemma getPort_host_native: "getPortFromConfig (host_native nv) k = (case nv k of Some (JNumber n) \<Rightarrow> Some n | _ \<Rightarrow> None)"
  by (cases "nv k" rule: typeof.cases) (simp_all add: getPortFromConfig_def host_native_def)

lemma init_port_falsy:
  assumes "\<not> truthy_num (port cfg)"
    and "truthy_str (portKey cfg) \<longrightarrow> \<not> truthy_num (getPortFromConfig h (the (portKey cfg)))"
    and "\<not> truthy_num (defaultPort cfg)"
  shows "\<not> truthy_num (init_port h cfg)"
  using assms by (auto simp: init_port_def Let_def)

lemma init_bonjour_ok:
  assumes "truthy_bool (enabled cfg)" and "init_port h cfg = Some p" and "p \<noteq> 0"
  shows "init_bonjour h cfg bonjour_ok st =
     \<lparr>returned = Inr (), state = st\<lparr>bonjour := Some Bonjour, service := Some (Service True)\<rparr>,
      logs = [published_line (init_serviceType h cfg) p (init_serviceName h cfg)],
      calls = [ImportBonjour, NewBonjour, Publish (init_advert h cfg p)]\<rparr>"
  using assms by (simp add: init_bonjour_def try_publish_bonjour_def bonjour_ok_def)

lemma init_ciao_ok:
  assumes "truthy_bool (enabled cfg)" and "init_port h cfg = Some p" and "p \<noteq> 0"
  shows "init_ciao h cfg ciao_ok st =
     \<lparr>returned = Inr (), state = st\<lparr>responder := Some Responder, ciao_service := Some CiaoService\<rparr>,
      logs = [published_line (init_serviceType h cfg) p (init_serviceName h cfg)],
      calls = [ImportCiao, GetResponder, CreateService (init_advert h cfg p), Advertise]\<rparr>"
  using assms by (simp add: init_ciao_def try_publish_ciao_def ciao_ok_def)

subsection \<open>A disabled plugin, a plugin without a port\<close>

text \<open>
  Claim C9. When \<open>enabled\<close> is false or missing, \<open>init\<close> of either variant returns
  normally, leaves the fields as they were, makes no call to the library (so constructs no
  responder, creates no service and advertises nothing) and logs one line, at level info.
\<close>

theorem init_disabled:
  "enabled cfg = None \<or> enabled cfg = Some False \<longrightarrow>
     init_bonjour h cfg lib st = \<lparr>returned = Inr (), state = st, logs = [disabled_line], calls = []\<rparr>
     \<and> init_ciao h cfg lib' st' = \<lparr>returned = Inr (), state = st', logs = [disabled_line], calls = []\<rparr>
     \<and> fst disabled_line = LogInfo"
  by (auto simp: init_bonjour_def init_ciao_def disabled_line_def)

theorem init_disabled_witness:
  "enabled (no_config\<lparr>port := Some 8089\<rparr>) = None
   \<and> init_bonjour host1 (no_config\<lparr>port := Some 8089\<rparr>) bonjour_ok new_bonjour_plugin
       = \<lparr>returned = Inr (), state = new_bonjour_plugin, logs = [disabled_line], calls = []\<rparr>
   \<and> init_ciao host1 (no_config\<lparr>port := Some 8089\<rparr>) ciao_ok new_ciao_plugin
       = \<lparr>returned = Inr (), state = new_ciao_plugin, logs = [disabled_line], calls = []\<rparr>"
  using init_disabled [of "no_config\<lparr>port := Some 8089\<rparr>" host1 bonjour_ok new_bonjour_plugin
      ciao_ok new_ciao_plugin]
  by (simp add: no_config_def)

text \<open>
  Claim C3. When \<open>enabled\<close> is true, \<open>port\<close> is falsy, the lookup under \<open>portKey\<close> (made
  only when \<open>portKey\<close> is truthy) yields no number and \<open>defaultPort\<close> is falsy or missing,
  \<open>init\<close> of either variant returns normally, logs exactly one line, at level warn, makes
  no call to the library and leaves the fields as they were: no handle is created.
\<close>

theorem init_no_port:
  assumes "enabled cfg = Some True"
    and "\<not> truthy_num (port cfg)"
    and "truthy_str (portKey cfg) \<longrightarrow> getPortFromConfig h (the (portKey cfg)) = None"
    and "\<not> truthy_num (defaultPort cfg)"
  shows "init_bonjour h cfg lib st = \<lparr>returned = Inr (), state = st, logs = [no_port_line], calls = []\<rparr>
     \<and> init_ciao h cfg lib' st' = \<lparr>returned = Inr (), state = st', logs = [no_port_line], calls = []\<rparr>
     \<and> fst no_port_line = LogWarn"
proof -
  have "\<not> truthy_num (init_port h cfg)"
    using assms(2,3,4) by (intro init_port_falsy) auto
  then show ?thesis
    using assms(1) by (simp add: init_bonjour_def init_ciao_def no_port_line_def)
qed

theorem init_no_port_witness:
  "init_bonjour (host_native [''x'' \<mapsto> JString ''9999''])
       (no_config\<lparr>enabled := Some True, port := Some 0, portKey := Some ''x''\<rparr>)
       bonjour_ok new_bonjour_plugin
     = \<lparr>returned = Inr (), state = new_bonjour_plugin, logs = [no_port_line], calls = []\<rparr>
   \<and> init_ciao (host_native [''x'' \<mapsto> JString ''9999''])
       (no_config\<lparr>enabled := Some True, port := Some 0, portKey := Some ''x''\<rparr>)
       ciao_ok new_ciao_plugin
     = \<lparr>returned = Inr (), state = new_ciao_plugin, logs = [no_port_line], calls = []\<rparr>"
  using init_no_port [of "no_config\<lparr>enabled := Some True, port := Some 0, portKey := Some ''x''\<rparr>"
      "host_native [''x'' \<mapsto> JString ''9999'']" bonjour_ok new_bonjour_plugin
      ciao_ok new_ciao_plugin]
  by (simp add: no_config_def getPort_host_native)

subsection \<open>The port\<close>

text \<open>
  Claim C1, as amended. The port is resolved in this order. (1) \<open>port\<close> when truthy.
  (2) Otherwise, when \<open>portKey\<close> is a string that is not empty and the native configuration
  holds under it a number other than zero, that number; the lookup yields a value only when
  the stored value has type number. (3) Otherwise \<open>defaultPort\<close> when truthy, and no port
  when it is not. Every advertisement that \<open>init\<close> of either variant hands to the library
  carries the port so resolved. The three examples of the specification resolve to 8089,
  9999 and 7000.
\<close>

theorem port_resolution:
  "(truthy_num (port cfg) \<longrightarrow> init_port h cfg = port cfg)
   \<and> (\<not> truthy_num (port cfg) \<and> portKey cfg = Some k \<and> k \<noteq> []
        \<and> getPortFromConfig h k = Some n \<and> n \<noteq> 0 \<longrightarrow> init_port h cfg = Some n)
   \<and> (\<not> truthy_num (port cfg)
        \<and> (portKey cfg = None \<or> portKey cfg = Some []
            \<or> (\<exists>k. portKey cfg = Some k \<and> \<not> truthy_num (getPortFromConfig h k)))
        \<longrightarrow> (if truthy_num (defaultPort cfg) then init_port h cfg = defaultPort cfg
             else \<not> truthy_num (init_port h cfg)))
   \<and> (getPortFromConfig h k' = Some n' \<longrightarrow>
        (\<exists>pkg nv. parentIoPackage h = Some pkg \<and> native pkg = Some nv
           \<and> nv k' = Some (JNumber n') \<and> typeof (nv k') = ''number''))
   \<and> (a \<in> set (adverts_bonjour (calls (init_bonjour h cfg lib st)))
        \<or> a \<in> set (adverts_ciao (calls (init_ciao h cfg lib' st')))
        \<longrightarrow> init_port h cfg = Some (adv_port a))
   \<and> init_port (host_native [''x'' \<mapsto> JNumber 9999])
        (no_config\<lparr>port := Some 8089, portKey := Some ''x''\<rparr>) = Some 8089
   \<and> init_port (host_native [''x'' \<mapsto> JNumber 9999]) (no_config\<lparr>portKey := Some ''x''\<rparr>) = Some 9999
   \<and> init_port (host_native [''x'' \<mapsto> JNumber 9999]) (no_config\<lparr>defaultPort := Some 7000\<rparr>) = Some 7000"
proof (intro conjI impI)
  assume "truthy_num (port cfg)"
  then show "init_port h cfg = port cfg"
    by (simp add: init_port_def Let_def)
next
  assume "\<not> truthy_num (port cfg) \<and> portKey cfg = Some k \<and> k \<noteq> []
        \<and> getPortFromConfig h k = Some n \<and> n \<noteq> 0"
  then show "init_port h cfg = Some n"
    by (simp add: init_port_def Let_def)
next
  assume "\<not> truthy_num (port cfg)
        \<and> (portKey cfg = None \<or> portKey cfg = Some []
            \<or> (\<exists>k. portKey cfg = Some k \<and> \<not> truthy_num (getPortFromConfig h k)))"
  then have "\<not> truthy_num (port cfg)"
    and "truthy_str (portKey cfg) \<longrightarrow> \<not> truthy_num (getPortFromConfig h (the (portKey cfg)))"
    by auto
  then show "if truthy_num (defaultPort cfg) then init_port h cfg = defaultPort cfg
             else \<not> truthy_num (init_port h cfg)"
    by (auto simp: init_port_def Let_def)
next
  assume "getPortFromConfig h k' = Some n'"
  then show "\<exists>pkg nv. parentIoPackage h = Some pkg \<and> native pkg = Some nv
           \<and> nv k' = Some (JNumber n') \<and> typeof (nv k') = ''number''"
    by (auto simp: getPortFromConfig_Some)
next
  assume "a \<in> set (adverts_bonjour (calls (init_bonjour h cfg lib st)))
        \<or> a \<in> set (adverts_ciao (calls (init_ciao h cfg lib' st')))"
  then show "init_port h cfg = Some (adv_port a)"
    using advert_port by blast
qed (simp_all add: init_port_def no_config_def getPort_host_native)

theorem port_resolution_witness:
  "truthy_num (port (no_config\<lparr>enabled := Some True, port := Some 8089, portKey := Some ''x''\<rparr>))
   \<and> init_port host1 (no_config\<lparr>enabled := Some True, port := Some 8089, portKey := Some ''x''\<rparr>) = Some 8089
   \<and> getPortFromConfig host1 ''x'' = Some 9999
   \<and> init_port host1 (no_config\<lparr>enabled := Some True, portKey := Some ''x'', defaultPort := Some 7000\<rparr>) = Some 9999
   \<and> \<not> truthy_num (getPortFromConfig (host_native [''x'' \<mapsto> JString ''9999'']) ''x'')
   \<and> init_port (host_native [''x'' \<mapsto> JString ''9999''])
        (no_config\<lparr>enabled := Some True, portKey := Some ''x'', defaultPort := Some 7000\<rparr>) = Some 7000
   \<and> init_advert host1 (no_config\<lparr>enabled := Some True, port := Some 8089, portKey := Some ''x''\<rparr>) 8089
       \<in> set (adverts_bonjour (calls (init_bonjour host1
            (no_config\<lparr>enabled := Some True, port := Some 8089, portKey := Some ''x''\<rparr>)
            bonjour_ok new_bonjour_plugin)))"
proof -
  let ?A = "no_config\<lparr>enabled := Some True, port := Some 8089, portKey := Some ''x''\<rparr>"
  let ?B = "no_config\<lparr>enabled := Some True, portKey := Some ''x'', defaultPort := Some 7000\<rparr>"
  let ?h = "host_native [''x'' \<mapsto> JString ''9999'']"
  have adv: "init_advert host1 ?A 8089
       \<in> set (adverts_bonjour (calls (init_bonjour host1 ?A bonjour_ok new_bonjour_plugin)))"
    by (subst init_bonjour_ok [where p = 8089]) (simp_all add: init_port_def no_config_def)
  have look: "getPortFromConfig host1 ''x'' = Some 9999"
    by (simp add: host1_def getPort_host_native)
  have nolook: "\<not> truthy_num (getPortFromConfig ?h ''x'')"
    by (simp add: getPort_host_native)
  show ?thesis
    using port_resolution [of ?A host1 "''x''" 9999 "''x''" 9999 "init_advert host1 ?A 8089"
        bonjour_ok new_bonjour_plugin ciao_ok new_ciao_plugin]
      port_resolution [of ?B host1 "''x''" 9999 "''x''" 9999 "init_advert host1 ?A 8089"
        bonjour_ok new_bonjour_plugin ciao_ok new_ciao_plugin]
      port_resolution [of ?B ?h "''x''" 9999 "''x''" 9999 "init_advert host1 ?A 8089"
        bonjour_ok new_bonjour_plugin ciao_ok new_ciao_plugin]
      adv look nolook
    by (simp add: no_config_def)
qed

text \<open>
  The claim as stated takes the value under \<open>portKey\<close> whenever it is a number. With no
  \<open>port\<close>, \<open>portKey\<close> \<open>x\<close>, the number 0 stored under \<open>x\<close> and \<open>defaultPort\<close> 7000,
  the stored value is a number, and both variants advertise on port 7000.
\<close>

theorem port_native_zero_counterexample:
  "typeof ([''x'' \<mapsto> JNumber 0] ''x'') = ''number''
   \<and> map adv_port (adverts_bonjour (calls (init_bonjour (host_native [''x'' \<mapsto> JNumber 0])
        (no_config\<lparr>enabled := Some True, portKey := Some ''x'', defaultPort := Some 7000\<rparr>)
        bonjour_ok new_bonjour_plugin))) = [7000]
   \<and> map adv_port (adverts_ciao (calls (init_ciao (host_native [''x'' \<mapsto> JNumber 0])
        (no_config\<lparr>enabled := Some True, portKey := Some ''x'', defaultPort := Some 7000\<rparr>)
        ciao_ok new_ciao_plugin))) = [7000]"
proof -
  let ?C = "no_config\<lparr>enabled := Some True, portKey := Some ''x'', defaultPort := Some 7000\<rparr>"
  let ?h = "host_native [''x'' \<mapsto> JNumber 0]"
  have p: "init_port ?h ?C = Some 7000"
    by (simp add: init_port_def no_config_def getPort_host_native)
  have e: "truthy_bool (enabled ?C)"
    by simp
  show ?thesis
    by (simp add: init_bonjour_ok [OF e p] init_ciao_ok [OF e p] init_advert_def)
qed

subsection \<open>TXT records, service type and service name\<close>

text \<open>
  Claim C6. In every advertisement that \<open>init\<close> of either variant hands to the library,
  an entry of \<open>config.txt\<close> is in the TXT records with its value, also under the keys
  \<open>adapter\<close> and \<open>hostname\<close>; every other key reads as in the base records, which map
  \<open>adapter\<close> to the adapter name and \<open>hostname\<close> to the local hostname; and without
  \<open>config.txt\<close> the TXT records are exactly the base records.
\<close>

theorem txt_records:
  assumes "a \<in> set (adverts_bonjour (calls (init_bonjour h cfg lib st)))
         \<or> a \<in> set (adverts_ciao (calls (init_ciao h cfg lib' st')))"
  shows "(cfg_txt cfg = Some t \<and> t k = Some v \<longrightarrow> adv_txt a k = Some v)
       \<and> (cfg_txt cfg = None \<or> (cfg_txt cfg = Some t \<and> t k = None) \<longrightarrow>
            adv_txt a k = [''adapter'' \<mapsto> getAdapterName (pluginNamespace h),
                           ''hostname'' \<mapsto> hostname h] k)
       \<and> (cfg_txt cfg = None \<longrightarrow>
            adv_txt a = [''adapter'' \<mapsto> getAdapterName (pluginNamespace h),
                         ''hostname'' \<mapsto> hostname h])"
proof -
  from assms have "a = init_advert h cfg (the (init_port h cfg))"
    using advert_of_init by blast
  then have "adv_txt a = init_txt h cfg"
    by (simp add: init_advert_def)
  then show ?thesis
    by (auto simp: init_txt_def map_add_def)
qed

theorem txt_records_witness:
  "init_advert host1
      (no_config\<lparr>enabled := Some True, port := Some 8089,
         cfg_txt := Some [''path'' \<mapsto> ''/audio'', ''hostname'' \<mapsto> ''custom'']\<rparr>) 8089
     \<in> set (adverts_bonjour (calls (init_bonjour host1
          (no_config\<lparr>enabled := Some True, port := Some 8089,
             cfg_txt := Some [''path'' \<mapsto> ''/audio'', ''hostname'' \<mapsto> ''custom'']\<rparr>)
          bonjour_ok new_bonjour_plugin)))
   \<and> adv_txt (init_advert host1
      (no_config\<lparr>enabled := Some True, port := Some 8089,
         cfg_txt := Some [''path'' \<mapsto> ''/audio'', ''hostname'' \<mapsto> ''custom'']\<rparr>) 8089) ''hostname''
     = Some ''custom''
   \<and> adv_txt (init_advert host1
      (no_config\<lparr>enabled := Some True, port := Some 8089,
         cfg_txt := Some [''path'' \<mapsto> ''/audio'', ''hostname'' \<mapsto> ''custom'']\<rparr>) 8089) ''adapter''
     = Some ''ai-assistant''"
proof -
  let ?t = "[''path'' \<mapsto> ''/audio'', ''hostname'' \<mapsto> ''custom'']"
  let ?C = "no_config\<lparr>enabled := Some True, port := Some 8089, cfg_txt := Some ?t\<rparr>"
  let ?A = "init_advert host1 ?C 8089"
  have adv: "?A \<in> set (adverts_bonjour (calls (init_bonjour host1 ?C bonjour_ok new_bonjour_plugin)))"
    by (subst init_bonjour_ok [where p = 8089]) (simp_all add: init_port_def no_config_def)
  have ad: "getAdapterName (pluginNamespace host1) = ''ai-assistant''"
    by (simp add: host1_def adapter_host_native)
  show ?thesis
    using txt_records [of ?A host1 ?C bonjour_ok new_bonjour_plugin ciao_ok new_ciao_plugin
        ?t "''hostname''" "''custom''"]
      txt_records [of ?A host1 ?C bonjour_ok new_bonjour_plugin ciao_ok new_ciao_plugin
        ?t "''adapter''" "''custom''"]
      adv ad
    by simp
qed

text \<open>
  Claim C8, as amended. In every advertisement that \<open>init\<close> of either variant hands to the
  library, the service type is \<open>config.serviceType\<close> when that is a string that is not
  empty, and \<open>iobroker-<adapterName>\<close> when it is missing or empty; the service name is
  \<open>config.serviceName\<close> when that is a string that is not empty, and
  \<open>ioBroker <adapterName> (<hostname>)\<close> when it is missing or empty.
\<close>

theorem service_type_and_name:
  assumes "a \<in> set (adverts_bonjour (calls (init_bonjour h cfg lib st)))
         \<or> a \<in> set (adverts_ciao (calls (init_ciao h cfg lib' st')))"
  shows "(serviceType cfg = Some ty \<and> ty \<noteq> [] \<longrightarrow> adv_type a = ty)
       \<and> (serviceType cfg = None \<or> serviceType cfg = Some [] \<longrightarrow>
            adv_type a = ''iobroker-'' @ getAdapterName (pluginNamespace h))
       \<and> (serviceName cfg = Some nm \<and> nm \<noteq> [] \<longrightarrow> adv_name a = nm)
       \<and> (serviceName cfg = None \<or> serviceName cfg = Some [] \<longrightarrow>
            adv_name a = ''ioBroker '' @ getAdapterName (pluginNamespace h)
                           @ '' ('' @ hostname h @ '')'')"
proof -
  from assms have "a = init_advert h cfg (the (init_port h cfg))"
    using advert_of_init by blast
  then have "adv_type a = init_serviceType h cfg" and "adv_name a = init_serviceName h cfg"
    by (simp_all add: init_advert_def)
  then show ?thesis
    by (auto simp: init_serviceType_def init_serviceName_def)
qed

theorem service_type_and_name_witness:
  "map adv_type (adverts_ciao (calls (init_ciao host1
       (no_config\<lparr>enabled := Some True, serviceType := Some ''iobroker-ai'', port := Some 8089,
          cfg_txt := Some [''path'' \<mapsto> ''/audio'']\<rparr>) ciao_ok new_ciao_plugin))) = [''iobroker-ai'']
   \<and> map adv_name (adverts_ciao (calls (init_ciao host1
       (no_config\<lparr>enabled := Some True, serviceType := Some ''iobroker-ai'', port := Some 8089,
          cfg_txt := Some [''path'' \<mapsto> ''/audio'']\<rparr>) ciao_ok new_ciao_plugin)))
       = [''ioBroker ai-assistant (host1)'']"
proof -
  let ?C = "no_config\<lparr>enabled := Some True, serviceType := Some ''iobroker-ai'', port := Some 8089,
          cfg_txt := Some [''path'' \<mapsto> ''/audio'']\<rparr>"
  let ?A = "init_advert host1 ?C 8089"
  have run: "init_ciao host1 ?C ciao_ok new_ciao_plugin =
     \<lparr>returned = Inr (),
      state = new_ciao_plugin\<lparr>responder := Some Responder, ciao_service := Some CiaoService\<rparr>,
      logs = [published_line (init_serviceType host1 ?C) 8089 (init_serviceName host1 ?C)],
      calls = [ImportCiao, GetResponder, CreateService ?A, Advertise]\<rparr>"
    by (rule init_ciao_ok) (simp_all add: init_port_def no_config_def)
  then have adv: "?A \<in> set (adverts_bonjour (calls (init_bonjour host1 ?C bonjour_ok new_bonjour_plugin)))
         \<or> ?A \<in> set (adverts_ciao (calls (init_ciao host1 ?C ciao_ok new_ciao_plugin)))"
    by simp
  have host: "getAdapterName (pluginNamespace host1) = ''ai-assistant''" "hostname host1 = ''host1''"
    by (simp_all add: host1_def adapter_host_native) (simp add: host_native_def)
  show ?thesis
    using service_type_and_name [OF adv, of "''iobroker-ai''" "''x''"] host run
    by (simp add: no_config_def)
qed

text \<open>
  The claim as stated takes a string that is present. With \<open>serviceType\<close> and
  \<open>serviceName\<close> present and empty, the advertisement carries the defaults.
\<close>

theorem empty_service_type_counterexample:
  "serviceType (no_config\<lparr>enabled := Some True, serviceType := Some [], port := Some 8089,
       serviceName := Some []\<rparr>) = Some []
   \<and> map adv_type (adverts_bonjour (calls (init_bonjour host1
       (no_config\<lparr>enabled := Some True, serviceType := Some [], port := Some 8089,
          serviceName := Some []\<rparr>) bonjour_ok new_bonjour_plugin))) = [''iobroker-ai-assistant'']
   \<and> map adv_name (adverts_bonjour (calls (init_bonjour host1
       (no_config\<lparr>enabled := Some True, serviceType := Some [], port := Some 8089,
          serviceName := Some []\<rparr>) bonjour_ok new_bonjour_plugin)))
       = [''ioBroker ai-assistant (host1)'']"
proof -
  let ?C = "no_config\<lparr>enabled := Some True, serviceType := Some [], port := Some 8089,
          serviceName := Some []\<rparr>"
  have p: "init_port host1 ?C = Some 8089"
    by (simp add: init_port_def no_config_def)
  have e: "truthy_bool (enabled ?C)"
    by simp
  have host: "getAdapterName (pluginNamespace host1) = ''ai-assistant''" "hostname host1 = ''host1''"
    by (simp_all add: host1_def adapter_host_native) (simp add: host_native_def)
  show ?thesis
    by (simp add: init_bonjour_ok [OF e p] init_advert_def init_serviceType_def
        init_serviceName_def host)
qed

subsection \<open>Teardown\<close>

lemma destroy_bonjour_simp:
  "destroy_bonjour lib st =
     \<lparr>returned = Inr True, state = \<lparr>bonjour = None, service = None\<rparr>, logs = [destroyed_line],
      calls = (case service st of None \<Rightarrow> [] | Some s \<Rightarrow> snd (try_stop_bonjour lib s))
            @ (case bonjour st of None \<Rightarrow> [] | Some b \<Rightarrow> snd (try_shutdown_bonjour lib))\<rparr>"
  by (cases st; cases "service st"; cases "bonjour st")
     (simp_all add: destroy_bonjour_def split: prod.splits)

lemma destroy_ciao_simp:
  "destroy_ciao lib st =
     \<lparr>returned = Inr True, state = \<lparr>responder = None, ciao_service = None\<rparr>, logs = [destroyed_line],
      calls = (case ciao_service st of None \<Rightarrow> [] | Some s \<Rightarrow> snd (try_end_ciao lib))
            @ (case responder st of None \<Rightarrow> [] | Some r \<Rightarrow> snd (try_shutdown_ciao lib))\<rparr>"
  by (cases st; cases "ciao_service st"; cases "responder st")
     (simp_all add: destroy_ciao_def split: prod.splits)

lemma try_shutdown_bonjour_calls:
  "snd (try_shutdown_bonjour lib) =
     (case on_unpublishAll lib of Throws e \<Rightarrow> [UnpublishAll] | Returns u \<Rightarrow> [UnpublishAll, BonjourDestroy])"
  by (simp add: try_shutdown_bonjour_def split: outcome.splits)

lemma try_stop_bonjour_calls:
  "snd (try_stop_bonjour lib s) = (if stop_defined s then [ServiceStop] else [])"
  by (simp add: try_stop_bonjour_def split: outcome.splits)

lemma try_shutdown_ciao_calls: "snd (try_shutdown_ciao lib) = [ResponderShutdown]"
  by (simp add: try_shutdown_ciao_def split: outcome.splits)

lemma try_end_ciao_calls: "snd (try_end_ciao lib) = [ServiceEnd]"
  by (simp add: try_end_ciao_def split: outcome.splits)

text \<open>
  Claim C4. \<open>destroy\<close> of either variant returns \<open>true\<close> and does not raise, whatever the
  fields hold and however the calls of the library end: after any \<open>init\<close>, a second time
  in succession (when it makes no call and changes nothing), and on a plugin on which
  \<open>init\<close> never ran.
\<close>

theorem destroy_always_true:
  "returned (destroy_bonjour lib st) = Inr True
   \<and> returned (destroy_ciao lib' st') = Inr True
   \<and> returned (destroy_bonjour lib (state (init_bonjour h cfg lib0 st))) = Inr True
   \<and> returned (destroy_ciao lib' (state (init_ciao h cfg lib0' st'))) = Inr True
   \<and> destroy_bonjour lib2 (state (destroy_bonjour lib st))
       = \<lparr>returned = Inr True, state = state (destroy_bonjour lib st),
          logs = [destroyed_line], calls = []\<rparr>
   \<and> destroy_ciao lib2' (state (destroy_ciao lib' st'))
       = \<lparr>returned = Inr True, state = state (destroy_ciao lib' st'),
          logs = [destroyed_line], calls = []\<rparr>
   \<and> destroy_bonjour lib new_bonjour_plugin
       = \<lparr>returned = Inr True, state = new_bonjour_plugin, logs = [destroyed_line], calls = []\<rparr>
   \<and> destroy_ciao lib' new_ciao_plugin
       = \<lparr>returned = Inr True, state = new_ciao_plugin, logs = [destroyed_line], calls = []\<rparr>"
  by (simp add: destroy_bonjour_simp destroy_ciao_simp new_bonjour_plugin_def new_ciao_plugin_def)

text \<open>
  Claim C5. After \<open>destroy\<close> of either variant both fields are \<open>null\<close>, however the calls
  of the library end. The calls it makes do not depend on how stopping the service ends:
  whenever the responder handle is held its shutdown is called, \<open>unpublishAll()\<close> followed
  by \<open>destroy()\<close> in the first file (\<open>destroy()\<close> is left out only when
  \<open>unpublishAll()\<close> itself throws) and \<open>shutdown()\<close> in the second. In particular, when
  stopping the service throws, the shutdown calls follow the stop call.
\<close>

theorem destroy_clears_handles:
  "state (destroy_bonjour lib st) = \<lparr>bonjour = None, service = None\<rparr>
   \<and> state (destroy_ciao lib' st') = \<lparr>responder = None, ciao_service = None\<rparr>
   \<and> calls (destroy_bonjour lib st)
       = (case service st of
            None \<Rightarrow> []
          | Some s \<Rightarrow> if stop_defined s then [ServiceStop] else [])
         @ (case bonjour st of
              None \<Rightarrow> []
            | Some b \<Rightarrow>
                (case on_unpublishAll lib of
                   Returns u \<Rightarrow> [UnpublishAll, BonjourDestroy]
                 | Throws x \<Rightarrow> [UnpublishAll]))
   \<and> calls (destroy_ciao lib' st')
       = (case ciao_service st' of None \<Rightarrow> [] | Some s \<Rightarrow> [ServiceEnd])
         @ (case responder st' of None \<Rightarrow> [] | Some r \<Rightarrow> [ResponderShutdown])
   \<and> (service st = Some (Service True) \<and> bonjour st \<noteq> None
        \<and> on_stop lib = Throws e \<and> on_unpublishAll lib = Returns ()
        \<longrightarrow> calls (destroy_bonjour lib st) = [ServiceStop, UnpublishAll, BonjourDestroy])
   \<and> (service st = Some (Service True) \<and> bonjour st \<noteq> None
        \<and> on_stop lib = Throws e \<and> on_unpublishAll lib = Throws x
        \<longrightarrow> calls (destroy_bonjour lib st) = [ServiceStop, UnpublishAll])
   \<and> (ciao_service st' \<noteq> None \<and> responder st' \<noteq> None \<and> on_end lib' = Throws e'
        \<longrightarrow> calls (destroy_ciao lib' st') = [ServiceEnd, ResponderShutdown])"
  by (auto simp: destroy_bonjour_simp destroy_ciao_simp try_shutdown_ciao_calls try_end_ciao_calls
      try_shutdown_bonjour_calls try_stop_bonjour_calls split: outcome.splits option.splits)

theorem destroy_clears_handles_witness:
  "on_stop (bonjour_ok\<lparr>on_stop := Throws (ThrownError ''boom'')\<rparr>) = Throws (ThrownError ''boom'')
   \<and> calls (destroy_bonjour (bonjour_ok\<lparr>on_stop := Throws (ThrownError ''boom'')\<rparr>)
        \<lparr>bonjour = Some Bonjour, service = Some (Service True)\<rparr>)
       = [ServiceStop, UnpublishAll, BonjourDestroy]
   \<and> state (destroy_bonjour (bonjour_ok\<lparr>on_stop := Throws (ThrownError ''boom'')\<rparr>)
        \<lparr>bonjour = Some Bonjour, service = Some (Service True)\<rparr>) = \<lparr>bonjour = None, service = None\<rparr>
   \<and> calls (destroy_bonjour
        (bonjour_ok\<lparr>on_stop := Throws (ThrownError ''boom''), on_unpublishAll := Throws ThrownNull\<rparr>)
        \<lparr>bonjour = Some Bonjour, service = Some (Service True)\<rparr>)
       = [ServiceStop, UnpublishAll]
   \<and> on_end (ciao_ok\<lparr>on_end := Throws ThrownNull, on_shutdown := Throws ThrownUndefined\<rparr>) = Throws ThrownNull
   \<and> calls (destroy_ciao (ciao_ok\<lparr>on_end := Throws ThrownNull, on_shutdown := Throws ThrownUndefined\<rparr>)
        \<lparr>responder = Some Responder, ciao_service = Some CiaoService\<rparr>) = [ServiceEnd, ResponderShutdown]
   \<and> state (destroy_ciao (ciao_ok\<lparr>on_end := Throws ThrownNull, on_shutdown := Throws ThrownUndefined\<rparr>)
        \<lparr>responder = Some Responder, ciao_service = Some CiaoService\<rparr>)
       = \<lparr>responder = None, ciao_service = None\<rparr>"
  using destroy_clears_handles [of "bonjour_ok\<lparr>on_stop := Throws (ThrownError ''boom'')\<rparr>"
      "\<lparr>bonjour = Some Bonjour, service = Some (Service True)\<rparr>"
      "ciao_ok\<lparr>on_end := Throws ThrownNull, on_shutdown := Throws ThrownUndefined\<rparr>"
      "\<lparr>responder = Some Responder, ciao_service = Some CiaoService\<rparr>"
      "ThrownError ''boom''" ThrownNull ThrownNull]
    destroy_clears_handles [of
      "bonjour_ok\<lparr>on_stop := Throws (ThrownError ''boom''), on_unpublishAll := Throws ThrownNull\<rparr>"
      "\<lparr>bonjour = Some Bonjour, service = Some (Service True)\<rparr>"
      "ciao_ok\<lparr>on_end := Throws ThrownNull, on_shutdown := Throws ThrownUndefined\<rparr>"
      "\<lparr>responder = Some Responder, ciao_service = Some CiaoService\<rparr>"
      "ThrownError ''boom''" ThrownNull ThrownNull]
  by (simp add: bonjour_ok_def ciao_ok_def)

subsection \<open>A failure while publishing\<close>

text \<open>
  Claim C2, as amended. Let \<open>enabled\<close> be true and a port be resolved, and let the first
  failing call of the \<open>try\<close> block throw a value whose \<open>message\<close> can be read and
  converted to a text \<open>m\<close> (so not \<open>undefined\<close>, not \<open>null\<close>, and not a value whose
  \<open>message\<close> throws when read or converted). Then \<open>init\<close> returns normally and logs
  exactly one line, at level error, which ends with \<open>m\<close>; no line reports a published
  service. The fields keep what was assigned before the failing call: nothing when loading
  the module or obtaining the responder fails; the responder when \<open>publish\<close>, respectively
  \<open>createService\<close>, fails; the responder and the service when \<open>advertise()\<close> of the
  second file fails. The calls made are those up to and including the failing one.
\<close>

theorem publish_failure_absorbed:
  assumes "truthy_bool (enabled cfg)" and "init_port h cfg = Some p" and "p \<noteq> 0"
    and "read_message err = Inr m"
  shows
    "(on_import lib = Throws err \<longrightarrow>
        init_bonjour h cfg lib st =
          \<lparr>returned = Inr (), state = st,
           logs = [(LogError, ''mDNS plugin failed to publish service: '' @ m)],
           calls = [ImportBonjour]\<rparr>)
     \<and> (on_import lib = Returns () \<and> on_new lib = Throws err \<longrightarrow>
        init_bonjour h cfg lib st =
          \<lparr>returned = Inr (), state = st,
           logs = [(LogError, ''mDNS plugin failed to publish service: '' @ m)],
           calls = [ImportBonjour, NewBonjour]\<rparr>)
     \<and> (on_import lib = Returns () \<and> on_new lib = Returns b \<and> on_publish lib = Throws err \<longrightarrow>
        init_bonjour h cfg lib st =
          \<lparr>returned = Inr (), state = st\<lparr>bonjour := Some b\<rparr>,
           logs = [(LogError, ''mDNS plugin failed to publish service: '' @ m)],
           calls = [ImportBonjour, NewBonjour, Publish (init_advert h cfg p)]\<rparr>)
     \<and> (on_import_ciao lib' = Throws err \<longrightarrow>
        init_ciao h cfg lib' st' =
          \<lparr>returned = Inr (), state = st',
           logs = [(LogError, ''mDNS plugin failed to publish service: '' @ m)],
           calls = [ImportCiao]\<rparr>)
     \<and> (on_import_ciao lib' = Returns () \<and> on_getResponder lib' = Throws err \<longrightarrow>
        init_ciao h cfg lib' st' =
          \<lparr>returned = Inr (), state = st',
           logs = [(LogError, ''mDNS plugin failed to publish service: '' @ m)],
           calls = [ImportCiao, GetResponder]\<rparr>)
     \<and> (on_import_ciao lib' = Returns () \<and> on_getResponder lib' = Returns r
          \<and> on_createService lib' = Throws err \<longrightarrow>
        init_ciao h cfg lib' st' =
          \<lparr>returned = Inr (), state = st'\<lparr>responder := Some r\<rparr>,
           logs = [(LogError, ''mDNS plugin failed to publish service: '' @ m)],
           calls = [ImportCiao, GetResponder, CreateService (init_advert h cfg p)]\<rparr>)
     \<and> (on_import_ciao lib' = Returns () \<and> on_getResponder lib' = Returns r
          \<and> on_createService lib' = Returns s \<and> on_advertise lib' = Throws err \<longrightarrow>
        init_ciao h cfg lib' st' =
          \<lparr>returned = Inr (), state = st'\<lparr>responder := Some r, ciao_service := Some s\<rparr>,
           logs = [(LogError, ''mDNS plugin failed to publish service: '' @ m)],
           calls = [ImportCiao, GetResponder, CreateService (init_advert h cfg p), Advertise]\<rparr>)"
  using assms
  by (simp add: init_bonjour_def init_ciao_def try_publish_bonjour_def try_publish_ciao_def
      failed_line_def)

theorem publish_failure_absorbed_witness:
  "init_bonjour host1 (no_config\<lparr>enabled := Some True, port := Some 8089\<rparr>)
       (bonjour_ok\<lparr>on_import := Throws (ThrownError ''boom'')\<rparr>) new_bonjour_plugin
     = \<lparr>returned = Inr (), state = new_bonjour_plugin,
        logs = [(LogError, ''mDNS plugin failed to publish service: boom'')],
        calls = [ImportBonjour]\<rparr>
   \<and> init_bonjour host1 (no_config\<lparr>enabled := Some True, port := Some 8089\<rparr>)
       (bonjour_ok\<lparr>on_new := Throws (ThrownError ''boom'')\<rparr>) new_bonjour_plugin
     = \<lparr>returned = Inr (), state = new_bonjour_plugin,
        logs = [(LogError, ''mDNS plugin failed to publish service: boom'')],
        calls = [ImportBonjour, NewBonjour]\<rparr>
   \<and> init_bonjour host1 (no_config\<lparr>enabled := Some True, port := Some 8089\<rparr>)
       (bonjour_ok\<lparr>on_publish := Throws (ThrownError ''boom'')\<rparr>) new_bonjour_plugin
     = \<lparr>returned = Inr (), state = new_bonjour_plugin\<lparr>bonjour := Some Bonjour\<rparr>,
        logs = [(LogError, ''mDNS plugin failed to publish service: boom'')],
        calls = [ImportBonjour, NewBonjour, Publish (init_advert host1 (no_config\<lparr>enabled := Some True, port := Some 8089\<rparr>) 8089)]\<rparr>
   \<and> init_ciao host1 (no_config\<lparr>enabled := Some True, port := Some 8089\<rparr>)
       (ciao_ok\<lparr>on_import_ciao := Throws (ThrownError ''boom'')\<rparr>) new_ciao_plugin
     = \<lparr>returned = Inr (), state = new_ciao_plugin,
        logs = [(LogError, ''mDNS plugin failed to publish service: boom'')],
        calls = [ImportCiao]\<rparr>
   \<and> init_ciao host1 (no_config\<lparr>enabled := Some True, port := Some 8089\<rparr>)
       (ciao_ok\<lparr>on_getResponder := Throws (ThrownError ''boom'')\<rparr>) new_ciao_plugin
     = \<lparr>returned = Inr (), state = new_ciao_plugin,
        logs = [(LogError, ''mDNS plugin failed to publish service: boom'')],
        calls = [ImportCiao, GetResponder]\<rparr>
   \<and> init_ciao host1 (no_config\<lparr>enabled := Some True, port := Some 8089\<rparr>)
       (ciao_ok\<lparr>on_createService := Throws (ThrownError ''boom'')\<rparr>) new_ciao_plugin
     = \<lparr>returned = Inr (), state = new_ciao_plugin\<lparr>responder := Some Responder\<rparr>,
        logs = [(LogError, ''mDNS plugin failed to publish service: boom'')],
        calls = [ImportCiao, GetResponder, CreateService (init_advert host1 (no_config\<lparr>enabled := Some True, port := Some 8089\<rparr>) 8089)]\<rparr>
   \<and> init_ciao host1 (no_config\<lparr>enabled := Some True, port := Some 8089\<rparr>)
       (ciao_ok\<lparr>on_advertise := Throws (ThrownError ''boom'')\<rparr>) new_ciao_plugin
     = \<lparr>returned = Inr (), state = new_ciao_plugin\<lparr>responder := Some Responder, ciao_service := Some CiaoService\<rparr>,
        logs = [(LogError, ''mDNS plugin failed to publish service: boom'')],
        calls = [ImportCiao, GetResponder, CreateService (init_advert host1 (no_config\<lparr>enabled := Some True, port := Some 8089\<rparr>) 8089), Advertise]\<rparr>"
proof -
  let ?C = "no_config\<lparr>enabled := Some True, port := Some 8089\<rparr>"
  have e: "truthy_bool (enabled ?C)"
    by simp
  have p: "init_port host1 ?C = Some 8089"
    by (simp add: init_port_def no_config_def)
  have nz: "(8089::int) \<noteq> 0"
    by simp
  have m: "read_message (ThrownError ''boom'') = Inr ''boom''"
    by simp
  show ?thesis
    using publish_failure_absorbed [OF e p nz m, of "bonjour_ok\<lparr>on_import := Throws (ThrownError ''boom'')\<rparr>" new_bonjour_plugin Bonjour ciao_ok new_ciao_plugin Responder CiaoService]
      publish_failure_absorbed [OF e p nz m, of "bonjour_ok\<lparr>on_new := Throws (ThrownError ''boom'')\<rparr>" new_bonjour_plugin Bonjour ciao_ok new_ciao_plugin Responder CiaoService]
      publish_failure_absorbed [OF e p nz m, of "bonjour_ok\<lparr>on_publish := Throws (ThrownError ''boom'')\<rparr>" new_bonjour_plugin Bonjour ciao_ok new_ciao_plugin Responder CiaoService]
      publish_failure_absorbed [OF e p nz m, of bonjour_ok new_bonjour_plugin Bonjour "ciao_ok\<lparr>on_import_ciao := Throws (ThrownError ''boom'')\<rparr>" new_ciao_plugin Responder CiaoService]
      publish_failure_absorbed [OF e p nz m, of bonjour_ok new_bonjour_plugin Bonjour "ciao_ok\<lparr>on_getResponder := Throws (ThrownError ''boom'')\<rparr>" new_ciao_plugin Responder CiaoService]
      publish_failure_absorbed [OF e p nz m, of bonjour_ok new_bonjour_plugin Bonjour "ciao_ok\<lparr>on_createService := Throws (ThrownError ''boom'')\<rparr>" new_ciao_plugin Responder CiaoService]
      publish_failure_absorbed [OF e p nz m, of bonjour_ok new_bonjour_plugin Bonjour "ciao_ok\<lparr>on_advertise := Throws (ThrownError ''boom'')\<rparr>" new_ciao_plugin Responder CiaoService]
    by (simp add: bonjour_ok_def ciao_ok_def)
qed

text \<open>
  The claim as stated covers every thrown value and says that no state is created. When
  \<open>advertise()\<close> rejects with \<open>undefined\<close>, \<open>publish\<close> throws \<open>null\<close>, or the thrown
  value has a \<open>message\<close> that cannot be read, evaluating the template in the \<open>catch\<close>
  block raises an exception, which leaves \<open>init\<close> with nothing logged. When a call
  throws an \<open>Error\<close>, a fresh plugin ends \<open>init\<close> holding the handles assigned so far:
  responder and service after a failed \<open>advertise()\<close>, the responder after a failed
  \<open>createService\<close> or \<open>publish\<close>.
\<close>

theorem publish_failure_counterexample:
  "returned (init_ciao host1 (no_config\<lparr>enabled := Some True, port := Some 8089\<rparr>)
        (ciao_ok\<lparr>on_advertise := Throws ThrownUndefined\<rparr>) new_ciao_plugin)
     = Inl (TypeError ThrownUndefined)
   \<and> logs (init_ciao host1 (no_config\<lparr>enabled := Some True, port := Some 8089\<rparr>)
        (ciao_ok\<lparr>on_advertise := Throws ThrownUndefined\<rparr>) new_ciao_plugin) = []
   \<and> returned (init_bonjour host1 (no_config\<lparr>enabled := Some True, port := Some 8089\<rparr>)
        (bonjour_ok\<lparr>on_publish := Throws ThrownNull\<rparr>) new_bonjour_plugin)
     = Inl (TypeError ThrownNull)
   \<and> returned (init_bonjour host1 (no_config\<lparr>enabled := Some True, port := Some 8089\<rparr>)
        (bonjour_ok\<lparr>on_new := Throws ThrownUnreadable\<rparr>) new_bonjour_plugin)
     = Inl (MessageThrew ThrownUnreadable)
   \<and> state (init_ciao host1 (no_config\<lparr>enabled := Some True, port := Some 8089\<rparr>)
        (ciao_ok\<lparr>on_advertise := Throws (ThrownError ''boom'')\<rparr>) new_ciao_plugin)
     = \<lparr>responder = Some Responder, ciao_service = Some CiaoService\<rparr>
   \<and> state (init_ciao host1 (no_config\<lparr>enabled := Some True, port := Some 8089\<rparr>)
        (ciao_ok\<lparr>on_createService := Throws (ThrownError ''boom'')\<rparr>) new_ciao_plugin)
     = \<lparr>responder = Some Responder, ciao_service = None\<rparr>
   \<and> state (init_bonjour host1 (no_config\<lparr>enabled := Some True, port := Some 8089\<rparr>)
        (bonjour_ok\<lparr>on_publish := Throws (ThrownError ''boom'')\<rparr>) new_bonjour_plugin)
     = \<lparr>bonjour = Some Bonjour, service = None\<rparr>"
proof -
  let ?C = "no_config\<lparr>enabled := Some True, port := Some 8089\<rparr>"
  have p: "init_port host1 ?C = Some 8089"
    by (simp add: init_port_def no_config_def)
  show ?thesis
    by (simp add: init_ciao_def init_bonjour_def p try_publish_ciao_def try_publish_bonjour_def
        ciao_ok_def bonjour_ok_def new_ciao_plugin_def new_bonjour_plugin_def)
qed

subsection \<open>The two variants\<close>

lemma abs_bonjour_append: "abs_bonjour (xs @ ys) = abs_bonjour xs @ abs_bonjour ys"
  by (induction xs rule: abs_bonjour.induct) simp_all

lemma abs_ciao_append: "abs_ciao (xs @ ys) = abs_ciao xs @ abs_ciao ys"
  by (induction xs rule: abs_ciao.induct) simp_all

lemma abs_shutdown_bonjour: "abs_bonjour (snd (try_shutdown_bonjour lib)) = [CapShutdown]"
  by (simp add: try_shutdown_bonjour_calls split: outcome.splits)

lemma new_plugin_fields:
  "bonjour new_bonjour_plugin = None" "service new_bonjour_plugin = None"
  "responder new_ciao_plugin = None" "ciao_service new_ciao_plugin = None"
  by (simp_all add: new_bonjour_plugin_def new_ciao_plugin_def)

lemma life_bonjour_eq:
  "life_bonjour h cfg lib =
     (let r1 = init_bonjour h cfg lib new_bonjour_plugin in
      \<lparr>obs_init = returned r1, obs_destroy = Inr True,
       obs_logs = logs r1 @ [destroyed_line],
       obs_calls = abs_bonjour (calls r1)
          @ (case service (state r1) of
               None \<Rightarrow> []
             | Some s \<Rightarrow> if stop_defined s then [CapStop] else [])
          @ (if bonjour (state r1) \<noteq> None then [CapShutdown] else []),
       obs_handles_after_init = (bonjour (state r1) \<noteq> None, service (state r1) \<noteq> None),
       obs_handles_after_destroy = (False, False)\<rparr>)"
  by (simp add: life_bonjour_def destroy_bonjour_simp handles_bonjour_def Let_def
      abs_bonjour_append abs_shutdown_bonjour try_stop_bonjour_calls split: option.splits)

lemma life_ciao_eq:
  "life_ciao h cfg lib =
     (let r1 = init_ciao h cfg lib new_ciao_plugin in
      \<lparr>obs_init = returned r1, obs_destroy = Inr True,
       obs_logs = logs r1 @ [destroyed_line],
       obs_calls = abs_ciao (calls r1)
          @ (if ciao_service (state r1) \<noteq> None then [CapStop] else [])
          @ (if responder (state r1) \<noteq> None then [CapShutdown] else []),
       obs_handles_after_init = (responder (state r1) \<noteq> None, ciao_service (state r1) \<noteq> None),
       obs_handles_after_destroy = (False, False)\<rparr>)"
  by (simp add: life_ciao_def destroy_ciao_simp handles_ciao_def Let_def
      abs_ciao_append try_shutdown_ciao_calls try_end_ciao_calls split: option.splits)

lemma init_bonjour_fresh:
  "init_bonjour h cfg lib new_bonjour_plugin =
     (if \<not> truthy_bool (enabled cfg) then
        \<lparr>returned = Inr (), state = new_bonjour_plugin, logs = [disabled_line], calls = []\<rparr>
      else if \<not> truthy_num (init_port h cfg) then
        \<lparr>returned = Inr (), state = new_bonjour_plugin, logs = [no_port_line], calls = []\<rparr>
      else
        (let p = the (init_port h cfg); adv = init_advert h cfg p in
         case cap_acquire (cap_of_bonjour lib) of
           Throws e \<Rightarrow>
             \<lparr>returned = map_sum id (\<lambda>_. ()) (read_message e),
              state = \<lparr>bonjour = None, service = None\<rparr>,
              logs = (case read_message e of Inl r \<Rightarrow> [] | Inr m \<Rightarrow> [failed_line m]),
              calls = (case on_import lib of Throws x \<Rightarrow> [ImportBonjour]
                       | Returns u \<Rightarrow> [ImportBonjour, NewBonjour])\<rparr>
         | Returns u \<Rightarrow>
             (case on_publish lib of
                Throws e \<Rightarrow>
                  \<lparr>returned = map_sum id (\<lambda>_. ()) (read_message e),
                   state = \<lparr>bonjour = Some Bonjour, service = None\<rparr>,
                   logs = (case read_message e of Inl r \<Rightarrow> [] | Inr m \<Rightarrow> [failed_line m]),
                   calls = [ImportBonjour, NewBonjour, Publish adv]\<rparr>
              | Returns s \<Rightarrow>
                  \<lparr>returned = Inr (),
                   state = \<lparr>bonjour = Some Bonjour, service = Some s\<rparr>,
                   logs = [published_line (init_serviceType h cfg) p (init_serviceName h cfg)],
                   calls = [ImportBonjour, NewBonjour, Publish adv]\<rparr>)))"
  by (cases "on_import lib"; cases "on_new lib" rule: outcome.exhaust; cases "on_publish lib")
     (auto simp: init_bonjour_def try_publish_bonjour_def cap_of_bonjour_def new_bonjour_plugin_def
        Let_def split: sum.splits intro: bonjour_handle.exhaust)

lemma init_ciao_fresh:
  "init_ciao h cfg lib new_ciao_plugin =
     (if \<not> truthy_bool (enabled cfg) then
        \<lparr>returned = Inr (), state = new_ciao_plugin, logs = [disabled_line], calls = []\<rparr>
      else if \<not> truthy_num (init_port h cfg) then
        \<lparr>returned = Inr (), state = new_ciao_plugin, logs = [no_port_line], calls = []\<rparr>
      else
        (let p = the (init_port h cfg); adv = init_advert h cfg p in
         case cap_acquire (cap_of_ciao lib) of
           Throws e \<Rightarrow>
             \<lparr>returned = map_sum id (\<lambda>_. ()) (read_message e),
              state = \<lparr>responder = None, ciao_service = None\<rparr>,
              logs = (case read_message e of Inl r \<Rightarrow> [] | Inr m \<Rightarrow> [failed_line m]),
              calls = (case on_import_ciao lib of Throws x \<Rightarrow> [ImportCiao]
                       | Returns u \<Rightarrow> [ImportCiao, GetResponder])\<rparr>
         | Returns u \<Rightarrow>
             (case on_createService lib of
                Throws e \<Rightarrow>
                  \<lparr>returned = map_sum id (\<lambda>_. ()) (read_message e),
                   state = \<lparr>responder = Some Responder, ciao_service = None\<rparr>,
                   logs = (case read_message e of Inl r \<Rightarrow> [] | Inr m \<Rightarrow> [failed_line m]),
                   calls = [ImportCiao, GetResponder, CreateService adv]\<rparr>
              | Returns s \<Rightarrow>
                  (case on_advertise lib of
                     Throws e \<Rightarrow>
                       \<lparr>returned = map_sum id (\<lambda>_. ()) (read_message e),
                        state = \<lparr>responder = Some Responder, ciao_service = Some CiaoService\<rparr>,
                        logs = (case read_message e of Inl r \<Rightarrow> [] | Inr m \<Rightarrow> [failed_line m]),
                        calls = [ImportCiao, GetResponder, CreateService adv, Advertise]\<rparr>
                   | Returns v \<Rightarrow>
                       \<lparr>returned = Inr (),
                        state = \<lparr>responder = Some Responder, ciao_service = Some CiaoService\<rparr>,
                        logs = [published_line (init_serviceType h cfg) p (init_serviceName h cfg)],
                        calls = [ImportCiao, GetResponder, CreateService adv, Advertise]\<rparr>))))"
  by (cases "on_import_ciao lib"; cases "on_getResponder lib"; cases "on_createService lib";
      cases "on_advertise lib")
     (auto simp: init_ciao_def try_publish_ciao_def cap_of_ciao_def new_ciao_plugin_def
        Let_def split: sum.splits intro: responder_handle.exhaust ciao_service.exhaust)

lemma stop_undefined: "\<not> stop_defined s \<Longrightarrow> s = Service False"
  by (cases s) simp

lemma same_capability:
  assumes "cap_of_bonjour lb = cap_of_ciao lc"
  shows "cap_acquire (cap_of_bonjour lb) = cap_acquire (cap_of_ciao lc)"
    and "in_sequence (on_publish lb) (Returns ()) = in_sequence (on_createService lc) (on_advertise lc)"
  using assms by (simp_all add: cap_of_bonjour_def cap_of_ciao_def)

text \<open>
  Claim C10, as amended. Take any behaviour of bonjour-service and any behaviour of
  @homebridge/ciao that play the same behaviour of the abstract capability. For every
  configuration and host, one life of a fresh plugin (\<open>init\<close>, then \<open>destroy\<close>) gives in
  both variants the same results of \<open>init\<close> and \<open>destroy\<close>, the same log lines, the same
  advertisement handed to the library and the same handles at the end (none). The lives
  are equal altogether, calls of the capability and handles after \<open>init\<close> included, when
  the service object of bonjour-service offers \<open>stop\<close> and \<open>advertise()\<close> of ciao is
  not the call that fails: the plugin is disabled or has no port, the responder cannot be
  obtained, \<open>createService\<close> throws, or \<open>advertise()\<close> returns. When \<open>createService\<close>
  returns and \<open>advertise()\<close> fails, the first file holds the responder only and its
  \<open>destroy\<close> calls shutdown, while the second holds the responder and the service and its
  \<open>destroy\<close> calls stop, then shutdown. When \<open>createService\<close> throws, both hold the
  responder only and both call shutdown only. When the service object of bonjour-service
  has no \<open>stop\<close>, the first file calls shutdown only where the second calls stop, then
  shutdown.
\<close>

theorem variants_compared:
  assumes "cap_of_bonjour lb = cap_of_ciao lc"
  shows
    "obs_init (life_bonjour h cfg lb) = obs_init (life_ciao h cfg lc)
     \<and> obs_destroy (life_bonjour h cfg lb) = obs_destroy (life_ciao h cfg lc)
     \<and> obs_logs (life_bonjour h cfg lb) = obs_logs (life_ciao h cfg lc)
     \<and> obs_handles_after_destroy (life_bonjour h cfg lb)
         = obs_handles_after_destroy (life_ciao h cfg lc)
     \<and> adverts_bonjour (calls (init_bonjour h cfg lb new_bonjour_plugin))
         = adverts_ciao (calls (init_ciao h cfg lc new_ciao_plugin))
     \<and> (on_publish lb \<noteq> Returns (Service False)
          \<and> (\<not> truthy_bool (enabled cfg) \<or> \<not> truthy_num (init_port h cfg)
               \<or> (\<exists>x. cap_acquire (cap_of_ciao lc) = Throws x)
               \<or> (\<exists>x. on_createService lc = Throws x)
               \<or> on_advertise lc = Returns ())
         \<longrightarrow> life_bonjour h cfg lb = life_ciao h cfg lc)
     \<and> (truthy_bool (enabled cfg) \<and> init_port h cfg = Some p \<and> p \<noteq> 0
          \<and> cap_acquire (cap_of_ciao lc) = Returns ()
          \<and> on_createService lc = Returns s \<and> on_advertise lc = Throws e
         \<longrightarrow> obs_handles_after_init (life_bonjour h cfg lb) = (True, False)
           \<and> obs_handles_after_init (life_ciao h cfg lc) = (True, True)
           \<and> obs_calls (life_bonjour h cfg lb) = [CapAdvertise (init_advert h cfg p), CapShutdown]
           \<and> obs_calls (life_ciao h cfg lc)
               = [CapAdvertise (init_advert h cfg p), CapStop, CapShutdown])
     \<and> (truthy_bool (enabled cfg) \<and> init_port h cfg = Some p \<and> p \<noteq> 0
          \<and> cap_acquire (cap_of_ciao lc) = Returns ()
          \<and> on_createService lc = Throws e
         \<longrightarrow> obs_handles_after_init (life_bonjour h cfg lb) = (True, False)
           \<and> obs_handles_after_init (life_ciao h cfg lc) = (True, False)
           \<and> obs_calls (life_bonjour h cfg lb) = [CapAdvertise (init_advert h cfg p), CapShutdown]
           \<and> obs_calls (life_ciao h cfg lc) = [CapAdvertise (init_advert h cfg p), CapShutdown])
     \<and> (truthy_bool (enabled cfg) \<and> init_port h cfg = Some p \<and> p \<noteq> 0
          \<and> cap_acquire (cap_of_ciao lc) = Returns ()
          \<and> on_publish lb = Returns (Service False)
         \<longrightarrow> obs_handles_after_init (life_bonjour h cfg lb) = (True, True)
           \<and> obs_handles_after_init (life_ciao h cfg lc) = (True, True)
           \<and> obs_calls (life_bonjour h cfg lb) = [CapAdvertise (init_advert h cfg p), CapShutdown]
           \<and> obs_calls (life_ciao h cfg lc)
               = [CapAdvertise (init_advert h cfg p), CapStop, CapShutdown])"
  using same_capability [OF assms]
  by (cases "cap_acquire (cap_of_ciao lc)"; cases "on_publish lb"; cases "on_createService lc";
      cases "on_advertise lc"; cases "on_import lb"; cases "on_import_ciao lc")
     (auto simp: life_bonjour_eq life_ciao_eq init_bonjour_fresh init_ciao_fresh Let_def
        new_plugin_fields dest: stop_undefined)

theorem variants_compared_witness:
  "life_bonjour host1 (no_config\<lparr>enabled := Some True, port := Some 8089\<rparr>) bonjour_ok
     = life_ciao host1 (no_config\<lparr>enabled := Some True, port := Some 8089\<rparr>) ciao_ok
   \<and> obs_handles_after_init (life_bonjour host1 (no_config\<lparr>enabled := Some True, port := Some 8089\<rparr>)
        (bonjour_ok\<lparr>on_publish := Throws (ThrownError ''boom'')\<rparr>)) = (True, False)
   \<and> obs_handles_after_init (life_ciao host1 (no_config\<lparr>enabled := Some True, port := Some 8089\<rparr>)
        (ciao_ok\<lparr>on_advertise := Throws (ThrownError ''boom'')\<rparr>)) = (True, True)
   \<and> obs_handles_after_init (life_ciao host1 (no_config\<lparr>enabled := Some True, port := Some 8089\<rparr>)
        (ciao_ok\<lparr>on_createService := Throws (ThrownError ''boom'')\<rparr>)) = (True, False)
   \<and> life_bonjour host1 (no_config\<lparr>enabled := Some True, port := Some 8089\<rparr>)
        (bonjour_ok\<lparr>on_publish := Throws (ThrownError ''boom'')\<rparr>)
     = life_ciao host1 (no_config\<lparr>enabled := Some True, port := Some 8089\<rparr>)
        (ciao_ok\<lparr>on_createService := Throws (ThrownError ''boom'')\<rparr>)
   \<and> obs_calls (life_bonjour host1 (no_config\<lparr>enabled := Some True, port := Some 8089\<rparr>)
        (bonjour_ok\<lparr>on_publish := Returns (Service False)\<rparr>))
     = [CapAdvertise (init_advert host1 (no_config\<lparr>enabled := Some True, port := Some 8089\<rparr>) 8089),
        CapShutdown]"
proof -
  let ?C = "no_config\<lparr>enabled := Some True, port := Some 8089\<rparr>"
  let ?ln = "bonjour_ok\<lparr>on_publish := Returns (Service False)\<rparr>"
  let ?lb = "bonjour_ok\<lparr>on_publish := Throws (ThrownError ''boom'')\<rparr>"
  let ?la = "ciao_ok\<lparr>on_advertise := Throws (ThrownError ''boom'')\<rparr>"
  let ?lc = "ciao_ok\<lparr>on_createService := Throws (ThrownError ''boom'')\<rparr>"
  have p: "init_port host1 ?C = Some 8089"
    by (simp add: init_port_def no_config_def)
  have ok: "cap_of_bonjour bonjour_ok = cap_of_ciao ciao_ok"
    by (simp add: cap_of_bonjour_def cap_of_ciao_def bonjour_ok_def ciao_ok_def)
  have a: "cap_of_bonjour ?lb = cap_of_ciao ?la"
    by (simp add: cap_of_bonjour_def cap_of_ciao_def bonjour_ok_def ciao_ok_def)
  have c: "cap_of_bonjour ?lb = cap_of_ciao ?lc"
    by (simp add: cap_of_bonjour_def cap_of_ciao_def bonjour_ok_def ciao_ok_def)
  have n: "cap_of_bonjour ?ln = cap_of_ciao ciao_ok"
    by (simp add: cap_of_bonjour_def cap_of_ciao_def bonjour_ok_def ciao_ok_def)
  have acq: "cap_acquire (cap_of_ciao ?la) = Returns ()" "cap_acquire (cap_of_ciao ?lc) = Returns ()"
    "cap_acquire (cap_of_ciao ciao_ok) = Returns ()"
    by (simp_all add: cap_of_ciao_def ciao_ok_def)
  show ?thesis
    using variants_compared [OF ok, of host1 ?C 8089 CiaoService "ThrownError ''boom''"]
      variants_compared [OF a, of host1 ?C 8089 CiaoService "ThrownError ''boom''"]
      variants_compared [OF c, of host1 ?C 8089 CiaoService "ThrownError ''boom''"]
      variants_compared [OF n, of host1 ?C 8089 CiaoService "ThrownError ''boom''"]
      p acq
    by (simp add: bonjour_ok_def ciao_ok_def)
qed

text \<open>
  The claim as stated has the same calls and the same state for every behaviour. With a
  port configured, take \<open>publish\<close> throwing an \<open>Error\<close> and \<open>advertise()\<close> rejecting
  with the same \<open>Error\<close>: both play the capability whose advertise fails, the handles
  after \<open>init\<close> differ, and the first file makes two calls of the capability where the
  second makes three.
\<close>

theorem variants_differ_counterexample:
  "cap_of_bonjour (bonjour_ok\<lparr>on_publish := Throws (ThrownError ''boom'')\<rparr>)
     = cap_of_ciao (ciao_ok\<lparr>on_advertise := Throws (ThrownError ''boom'')\<rparr>)
   \<and> obs_handles_after_init (life_bonjour host1 (no_config\<lparr>enabled := Some True, port := Some 8089\<rparr>)
        (bonjour_ok\<lparr>on_publish := Throws (ThrownError ''boom'')\<rparr>)) = (True, False)
   \<and> obs_handles_after_init (life_ciao host1 (no_config\<lparr>enabled := Some True, port := Some 8089\<rparr>)
        (ciao_ok\<lparr>on_advertise := Throws (ThrownError ''boom'')\<rparr>)) = (True, True)
   \<and> length (obs_calls (life_bonjour host1 (no_config\<lparr>enabled := Some True, port := Some 8089\<rparr>)
        (bonjour_ok\<lparr>on_publish := Throws (ThrownError ''boom'')\<rparr>))) = 2
   \<and> length (obs_calls (life_ciao host1 (no_config\<lparr>enabled := Some True, port := Some 8089\<rparr>)
        (ciao_ok\<lparr>on_advertise := Throws (ThrownError ''boom'')\<rparr>))) = 3"
proof -
  let ?C = "no_config\<lparr>enabled := Some True, port := Some 8089\<rparr>"
  have p: "init_port host1 ?C = Some 8089"
    by (simp add: init_port_def no_config_def)
  show ?thesis
    by (simp add: life_bonjour_eq life_ciao_eq init_bonjour_fresh init_ciao_fresh p
        cap_of_bonjour_def cap_of_ciao_def bonjour_ok_def ciao_ok_def)
qed

end
